theory Spec2Isabelle
  imports Main
begin

section \<open>The JavaScript runtime the script relies on: \<open>Date\<close>\<close>

text \<open>
  Both variants of \<^verbatim>\<open>index.mjs\<close> format every date with the inline expression
  \<^verbatim>\<open>new Date(x).toISOString().substring(0, 10)\<close>. The \<open>Date\<close> object belongs to the
  JavaScript runtime, not to the repository; it is modelled after ECMA-262 (section
  "Date Objects"). A time value is an integer number of milliseconds since
  1970-01-01T00:00:00Z; \<open>None\<close> stands for \<open>NaN\<close>, the time value of an invalid date.
\<close>

definition msPerDay :: int where
  "msPerDay = 86400000"

definition Day :: "int \<Rightarrow> int" where
  "Day t = t div msPerDay"

definition TimeWithinDay :: "int \<Rightarrow> int" where
  "TimeWithinDay t = t mod msPerDay"

definition DaysInYear :: "int \<Rightarrow> int" where
  "DaysInYear y =
     (if y mod 4 \<noteq> 0 then 365
      else if y mod 100 \<noteq> 0 then 366
      else if y mod 400 \<noteq> 0 then 365
      else 366)"

definition DayFromYear :: "int \<Rightarrow> int" where
  "DayFromYear y =
     365 * (y - 1970) + (y - 1969) div 4 - (y - 1901) div 100 + (y - 1601) div 400"

lemma div_succ:
  fixes z c :: int
  assumes "0 < c"
  shows "(z + 1) div c = z div c + (if (z + 1) mod c = 0 then 1 else 0)"
proof (cases "z mod c = c - 1")
  case True
  have "z = c * (z div c) + z mod c" by simp
  then have "z + 1 = c * (z div c) + c" using True by linarith
  then have eq: "z + 1 = (z div c + 1) * c" by (simp add: algebra_simps)
  have "(z + 1) div c = z div c + 1"
    using assms by (subst eq) simp
  moreover have "(z + 1) mod c = 0"
    by (subst eq) simp
  ultimately show ?thesis by simp
next
  case False
  have r: "0 \<le> z mod c" "z mod c < c" using assms by simp_all
  have eq: "z + 1 = c * (z div c) + (z mod c + 1)"
    using mult_div_mod_eq [of c z] by simp
  have lt: "z mod c + 1 < c" using r False by simp
  have "(z + 1) div c = z div c"
    using int_div_pos_eq [OF eq _ lt] r by simp
  moreover have "(z + 1) mod c = z mod c + 1"
    using int_mod_pos_eq [OF eq _ lt] r by simp
  ultimately show ?thesis using r by simp
qed

lemma mod_shift4: "((y::int) - 1968) mod 4 = y mod 4"
  using mod_mult_self1 [of y "-492" 4] by simp

lemma mod_shift100: "((y::int) - 1900) mod 100 = y mod 100"
  using mod_mult_self1 [of y "-19" 100] by simp

lemma mod_shift400: "((y::int) - 1600) mod 400 = y mod 400"
  using mod_mult_self1 [of y "-4" 400] by simp

lemma mod100_mod4: "(y::int) mod 100 = 0 \<Longrightarrow> y mod 4 = 0"
  using mod_mod_cancel [of 4 100 y] by simp

lemma mod400_mod100: "(y::int) mod 400 = 0 \<Longrightarrow> y mod 100 = 0"
  using mod_mod_cancel [of 100 400 y] by simp

lemma DayFromYear_Suc: "DayFromYear (y + 1) = DayFromYear y + DaysInYear y"
proof -
  have a: "(y - 1968) div 4 = (y - 1969) div 4 + (if y mod 4 = 0 then 1 else 0)"
    using div_succ [of 4 "y - 1969"] mod_shift4 [of y] by simp
  have b: "(y - 1900) div 100 = (y - 1901) div 100 + (if y mod 100 = 0 then 1 else 0)"
    using div_succ [of 100 "y - 1901"] mod_shift100 [of y] by simp
  have c: "(y - 1600) div 400 = (y - 1601) div 400 + (if y mod 400 = 0 then 1 else 0)"
    using div_succ [of 400 "y - 1601"] mod_shift400 [of y] by simp
  show ?thesis
    using mod100_mod4 [of y] mod400_mod100 [of y]
    by (simp add: DayFromYear_def DaysInYear_def a b c)
qed

lemma DaysInYear_bounds: "365 \<le> DaysInYear y \<and> DaysInYear y \<le> 366"
  by (simp add: DaysInYear_def)

lemma DayFromYear_pred: "DayFromYear (y - 1) < DayFromYear y"
  using DayFromYear_Suc [of "y - 1"] DaysInYear_bounds [of "y - 1"] by simp

text \<open>
  ECMA-262 defines \<open>YearFromTime(t)\<close> as the largest year \<open>y\<close> with
  \<open>DayFromYear(y) \<le> Day(t)\<close>. \<open>yearSearch\<close> finds it by walking down from a year that is
  certainly not too small.
\<close>

function yearSearch :: "int \<Rightarrow> int \<Rightarrow> int" where
  "yearSearch y d = (if DayFromYear y \<le> d then y else yearSearch (y - 1) d)"
  by pat_completeness auto
termination
  by (relation "measure (\<lambda>(y, d). nat (DayFromYear y - d))")
     (use DayFromYear_pred in \<open>auto simp: not_le\<close>)

declare yearSearch.simps [simp del]

definition YearFromDay :: "int \<Rightarrow> int" where
  "YearFromDay d = yearSearch (1970 + (if 0 \<le> d then d div 365 else d div 366)) d"

definition YearFromTime :: "int \<Rightarrow> int" where
  "YearFromTime t = YearFromDay (Day t)"

definition InLeapYear :: "int \<Rightarrow> int" where
  "InLeapYear y = (if DaysInYear y = 366 then 1 else 0)"

text \<open>The day number within the year at which month \<open>m\<close> (0 = January) begins.\<close>

definition monthStart :: "int \<Rightarrow> int \<Rightarrow> int" where
  "monthStart leap m =
     (if m \<le> 0 then 0
      else if m = 1 then 31
      else if m = 2 then 59 + leap
      else if m = 3 then 90 + leap
      else if m = 4 then 120 + leap
      else if m = 5 then 151 + leap
      else if m = 6 then 181 + leap
      else if m = 7 then 212 + leap
      else if m = 8 then 243 + leap
      else if m = 9 then 273 + leap
      else if m = 10 then 304 + leap
      else if m = 11 then 334 + leap
      else 365 + leap)"

text \<open>\<open>MonthFromTime\<close> on the day within the year: the table of ECMA-262.\<close>

definition monthOfYearDay :: "int \<Rightarrow> int \<Rightarrow> int" where
  "monthOfYearDay leap dy =
     (if dy < 31 then 0
      else if dy < 59 + leap then 1
      else if dy < 90 + leap then 2
      else if dy < 120 + leap then 3
      else if dy < 151 + leap then 4
      else if dy < 181 + leap then 5
      else if dy < 212 + leap then 6
      else if dy < 243 + leap then 7
      else if dy < 273 + leap then 8
      else if dy < 304 + leap then 9
      else if dy < 334 + leap then 10
      else 11)"

definition DayWithinYear :: "int \<Rightarrow> int" where
  "DayWithinYear t = Day t - DayFromYear (YearFromTime t)"

definition MonthFromTime :: "int \<Rightarrow> int" where
  "MonthFromTime t = monthOfYearDay (InLeapYear (YearFromTime t)) (DayWithinYear t)"

definition DateFromTime :: "int \<Rightarrow> int" where
  "DateFromTime t =
     DayWithinYear t - monthStart (InLeapYear (YearFromTime t)) (MonthFromTime t) + 1"

definition HourFromTime :: "int \<Rightarrow> int" where
  "HourFromTime t = TimeWithinDay t div 3600000"

definition MinFromTime :: "int \<Rightarrow> int" where
  "MinFromTime t = (TimeWithinDay t div 60000) mod 60"

definition SecFromTime :: "int \<Rightarrow> int" where
  "SecFromTime t = (TimeWithinDay t div 1000) mod 60"

definition msFromTime :: "int \<Rightarrow> int" where
  "msFromTime t = TimeWithinDay t mod 1000"

text \<open>
  \<open>MakeDay\<close> and \<open>MakeTime\<close>/\<open>MakeDate\<close> for a month \<open>m\<close> in 0..11 (the only months
  the parser below passes), and \<open>TimeClip\<close>.
\<close>

definition MakeDay :: "int \<Rightarrow> int \<Rightarrow> int \<Rightarrow> int" where
  "MakeDay y m dt = DayFromYear y + monthStart (InLeapYear y) m + dt - 1"

definition MakeTime :: "int \<Rightarrow> int \<Rightarrow> int \<Rightarrow> int \<Rightarrow> int" where
  "MakeTime h mi s ms = h * 3600000 + mi * 60000 + s * 1000 + ms"

definition MakeDate :: "int \<Rightarrow> int \<Rightarrow> int" where
  "MakeDate day time = day * msPerDay + time"

definition TimeClip :: "int \<Rightarrow> int option" where
  "TimeClip t = (if \<bar>t\<bar> \<le> 8640000000000000 then Some t else None)"

subsection \<open>Decimal digits\<close>

definition digitChar :: "nat \<Rightarrow> char" where
  "digitChar n = char_of (48 + n)"

text \<open>\<open>pad k n\<close>: the last \<open>k\<close> decimal digits of \<open>n\<close>, zero-padded on the left.\<close>

fun pad :: "nat \<Rightarrow> nat \<Rightarrow> string" where
  "pad 0 n = []"
| "pad (Suc k) n = pad k (n div 10) @ [digitChar (n mod 10)]"

definition isDigit :: "char \<Rightarrow> bool" where
  "isDigit c = ((48::nat) \<le> of_char c \<and> of_char c \<le> (57::nat))"

definition digitVal :: "char \<Rightarrow> nat" where
  "digitVal c = of_char c - (48::nat)"

text \<open>The number a string of decimal digits denotes; \<open>None\<close> when a character is no digit.\<close>

fun readNat :: "nat \<Rightarrow> string \<Rightarrow> nat option" where
  "readNat acc [] = Some acc"
| "readNat acc (c # cs) = (if isDigit c then readNat (10 * acc + digitVal c) cs else None)"

subsection \<open>\<open>toISOString\<close>, \<open>Date.parse\<close> and the inline date formatting\<close>

text \<open>
  The errors the script can see. \<open>FetchError\<close> is the
  \<^verbatim>\<open>new Error("Error fetching path ...", { cause: error })\<close> of \<open>fetchData\<close>,
  \<open>HttpError\<close> its \<^verbatim>\<open>new Error(status + " " + statusText)\<close>,
  \<open>Rethrown\<close> the \<^verbatim>\<open>new Error(error, { cause: error })\<close> of the second variant's
  \<open>fetchAll\<close>. \<open>NetworkError\<close> and \<open>BodyError\<close> are the rejections of \<open>fetch\<close> and
  of \<open>response.json()\<close>, \<open>TypeError\<close> the read of the named property of
  \<open>undefined\<close>, \<open>RangeError\<close> what \<open>toISOString\<close> throws on an invalid date,
  \<open>ENOENT\<close> what \<open>readFileSync\<close> throws on a missing file and \<open>TemplateError\<close>
  whatever the template engine throws.
\<close>

datatype err =
    NetworkError string
  | BodyError string
  | HttpError nat string
  | FetchError string err
  | TypeError string
  | RangeError string
  | Rethrown err
  | ENOENT string
  | TemplateError string

text \<open>The \<open>cause\<close> property of an error object.\<close>

fun cause :: "err \<Rightarrow> err option" where
  "cause (FetchError path c) = Some c"
| "cause (Rethrown c) = Some c"
| "cause e = None"

text \<open>
  \<open>toISOString\<close>: years 0 to 9999 are written with four digits, every other year with a
  sign and six digits (the expanded year of ECMA-262).
\<close>

definition yearString :: "int \<Rightarrow> string" where
  "yearString y =
     (if 0 \<le> y \<and> y \<le> 9999 then pad 4 (nat y)
      else (if y < 0 then ''-'' else ''+'') @ pad 6 (nat \<bar>y\<bar>))"

definition dateString :: "int \<Rightarrow> int \<Rightarrow> int \<Rightarrow> string" where
  "dateString y m d = yearString y @ ''-'' @ pad 2 (nat m) @ ''-'' @ pad 2 (nat d)"

definition isoString :: "int \<Rightarrow> string" where
  "isoString t =
     dateString (YearFromTime t) (MonthFromTime t + 1) (DateFromTime t)
     @ ''T'' @ pad 2 (nat (HourFromTime t)) @ '':'' @ pad 2 (nat (MinFromTime t))
     @ '':'' @ pad 2 (nat (SecFromTime t)) @ ''.'' @ pad 3 (nat (msFromTime t)) @ ''Z''"

definition toISOString :: "int option \<Rightarrow> err + string" where
  "toISOString tv =
     (case tv of
        None \<Rightarrow> Inl (RangeError ''Invalid time value'')
      | Some t \<Rightarrow> Inr (isoString t))"

text \<open>
  \<open>Date.parse\<close>. ECMA-262 fixes the meaning of the date-time string format and leaves
  every other string to the implementation. The model reads three forms of the format,
  all in UTC: the date alone (\<open>YYYY-MM-DD\<close>), the date with a time and \<open>Z\<close>
  (\<open>YYYY-MM-DDTHH:mm:ssZ\<close>, the form of the hosting API's timestamps) and the same with
  milliseconds (the form \<open>toISOString\<close> writes). Any other string, including one with a
  field out of range, is handed to \<open>hostParse\<close>, a parameter standing for whatever the
  engine does with it (\<open>None\<close> is \<open>NaN\<close>).
\<close>

definition DaysInMonth :: "int \<Rightarrow> int \<Rightarrow> int" where
  "DaysInMonth y m = monthStart (InLeapYear y) m - monthStart (InLeapYear y) (m - 1)"

definition parseDay :: "string \<Rightarrow> int option" where
  "parseDay s =
     (if length s = 10 \<and> s ! 4 = CHR ''-'' \<and> s ! 7 = CHR ''-'' then
        (case readNat 0 (take 4 s) of
           None \<Rightarrow> None
         | Some y \<Rightarrow>
             (case readNat 0 (take 2 (drop 5 s)) of
                None \<Rightarrow> None
              | Some m \<Rightarrow>
                  (case readNat 0 (drop 8 s) of
                     None \<Rightarrow> None
                   | Some d \<Rightarrow>
                       if 1 \<le> m \<and> m \<le> 12 \<and> 1 \<le> d \<and> int d \<le> DaysInMonth (int y) (int m)
                       then Some (MakeDay (int y) (int m - 1) (int d))
                       else None)))
      else None)"

definition parseClock :: "string \<Rightarrow> int option" where
  "parseClock s =
     (if length s = 8 \<and> s ! 2 = CHR '':'' \<and> s ! 5 = CHR '':'' then
        (case readNat 0 (take 2 s) of
           None \<Rightarrow> None
         | Some h \<Rightarrow>
             (case readNat 0 (take 2 (drop 3 s)) of
                None \<Rightarrow> None
              | Some mi \<Rightarrow>
                  (case readNat 0 (drop 6 s) of
                     None \<Rightarrow> None
                   | Some sec \<Rightarrow>
                       if h \<le> 23 \<and> mi \<le> 59 \<and> sec \<le> 59
                       then Some (MakeTime (int h) (int mi) (int sec) 0)
                       else None)))
      else None)"

definition parseISO :: "string \<Rightarrow> int option" where
  "parseISO s =
     (if length s = 10 then
        (case parseDay s of None \<Rightarrow> None | Some day \<Rightarrow> Some (MakeDate day 0))
      else if length s = 20 \<and> s ! 10 = CHR ''T'' \<and> s ! 19 = CHR ''Z'' then
        (case parseDay (take 10 s) of
           None \<Rightarrow> None
         | Some day \<Rightarrow>
             (case parseClock (take 8 (drop 11 s)) of
                None \<Rightarrow> None
              | Some time \<Rightarrow> Some (MakeDate day time)))
      else if length s = 24 \<and> s ! 10 = CHR ''T'' \<and> s ! 19 = CHR ''.'' \<and> s ! 23 = CHR ''Z'' then
        (case parseDay (take 10 s) of
           None \<Rightarrow> None
         | Some day \<Rightarrow>
             (case parseClock (take 8 (drop 11 s)) of
                None \<Rightarrow> None
              | Some time \<Rightarrow>
                  (case readNat 0 (take 3 (drop 20 s)) of
                     None \<Rightarrow> None
                   | Some ms \<Rightarrow> Some (MakeDate day (time + int ms)))))
      else None)"

definition Date_parse :: "(string \<Rightarrow> int option) \<Rightarrow> string \<Rightarrow> int option" where
  "Date_parse hostParse s =
     (case parseISO s of
        Some t \<Rightarrow> TimeClip t
      | None \<Rightarrow> (case hostParse s of None \<Rightarrow> None | Some t \<Rightarrow> TimeClip t))"

text \<open>
  The inline expression \<^verbatim>\<open>new Date(x).toISOString().substring(0, 10)\<close> of both
  variants of \<open>fetchAll\<close>, for a string \<open>x\<close>; \<open>substring(0, 10)\<close> keeps the first ten
  characters.
\<close>

definition normalizeDate :: "(string \<Rightarrow> int option) \<Rightarrow> string \<Rightarrow> err + string" where
  "normalizeDate hostParse x =
     (case toISOString (Date_parse hostParse x) of
        Inl e \<Rightarrow> Inl e
      | Inr str \<Rightarrow> Inr (take 10 str))"

text \<open>
  \<^verbatim>\<open>toISOString().substring(0, 10)\<close> of a date with the time value \<open>t\<close>; with the
  clock reading for \<open>t\<close> it is \<^verbatim>\<open>new Date().toISOString().substring(0, 10)\<close>.
\<close>

definition isoDate :: "int \<Rightarrow> string" where
  "isoDate t = take 10 (isoString t)"

text \<open>The form \<open>YYYY-MM-DD\<close>: ten characters, digits around two hyphens.\<close>

definition isoDateForm :: "string \<Rightarrow> bool" where
  "isoDateForm s =
     (length s = 10 \<and> list_all isDigit (take 4 s) \<and> s ! 4 = CHR ''-''
      \<and> list_all isDigit (take 2 (drop 5 s)) \<and> s ! 7 = CHR ''-''
      \<and> list_all isDigit (drop 8 s))"

text \<open>An instant whose year (UTC) is written with four digits.\<close>

definition fourDigitYear :: "int \<Rightarrow> bool" where
  "fourDigitYear t = (0 \<le> YearFromTime t \<and> YearFromTime t \<le> 9999)"

subsection \<open>Numbers and their addition\<close>

text \<open>
  A JavaScript number is an IEEE-754 double. The numbers the script adds up are integers
  (star counts), so the model keeps a finite number by its integer value and adds as
  the runtime does: the exact sum is rounded to the nearest double, a tie going to the
  even significand, and a sum whose rounded magnitude reaches \<open>2 ^ 1024\<close> becomes an
  infinity. A double has a significand of 53 bits: an integer below \<open>2 ^ 53\<close> in magnitude
  is a double as it is, a larger one is rounded to a multiple of \<open>2 ^ k\<close>, where \<open>k\<close> is
  the number of bits (\<open>dropBits\<close>) it has beyond 53. \<open>2 ^ 53\<close> is 9007199254740992.
\<close>

function dropBits :: "int \<Rightarrow> nat" where
  "dropBits n = (if n < 9007199254740992 then 0 else Suc (dropBits (n div 2)))"
  by pat_completeness auto
termination
  by (relation "measure nat") auto

declare dropBits.simps [simp del]

definition roundToDouble :: "int \<Rightarrow> int" where
  "roundToDouble x =
     (let u = 2 ^ dropBits \<bar>x\<bar>; q = x div u; r = x mod u
      in if 2 * r < u then q * u
         else if u < 2 * r then (q + 1) * u
         else if even q then q * u
         else (q + 1) * u)"

datatype number = Finite int | PosInfinity | NegInfinity

definition hugeValue :: int where
  "hugeValue = 2 ^ 1024"

definition overflow :: "int \<Rightarrow> number" where
  "overflow x =
     (if hugeValue \<le> x then PosInfinity
      else if x \<le> - hugeValue then NegInfinity
      else Finite x)"

text \<open>\<open>a + b\<close> for a number \<open>a\<close> and a finite number of the integer value \<open>b\<close>.\<close>

definition jsAdd :: "number \<Rightarrow> int \<Rightarrow> number" where
  "jsAdd a b =
     (case a of
        Finite x \<Rightarrow> overflow (roundToDouble (x + b))
      | PosInfinity \<Rightarrow> PosInfinity
      | NegInfinity \<Rightarrow> NegInfinity)"

text \<open>An integer of a magnitude up to \<open>2 ^ 53\<close>: every such integer is a double.\<close>

definition exactInt :: "int \<Rightarrow> bool" where
  "exactInt x = (\<bar>x\<bar> \<le> 9007199254740992)"

text \<open>The exact totals after each element of a list, starting from \<open>acc\<close>.\<close>

fun runningTotals :: "int \<Rightarrow> int list \<Rightarrow> int list" where
  "runningTotals acc [] = []"
| "runningTotals acc (x # xs) = (acc + x) # runningTotals (acc + x) xs"

section \<open>The script\<close>

subsection \<open>What the script reads from the hosting API\<close>

text \<open>
  The script reads a few named fields of each JSON response. The model gives each
  response the fields the script reads, with the JSON types the hosting API documents
  for them; a response of any other shape is outside the model. A count is an integer:
  the integer value of the number that \<open>JSON.parse\<close> returned. The counts that the
  script only copies into the summary stay as they are; the star counts are added with
  the addition of the runtime (\<open>jsAdd\<close>). The one shape mismatch the model keeps is the
  one the script can meet with well-typed responses: a search result whose \<open>items\<close>
  array is empty.
\<close>

record repo =
  name :: string
  stargazers_count :: int
  isPrivate :: bool

record commit =
  sha :: string

record item =
  created_at :: string
  html_url :: string

record search =
  total_count :: int
  items :: "item list"

record user =
  created_at :: string
  public_repos :: int
  followers :: int

subsection \<open>The world: network, clock, console and files\<close>

text \<open>
  What \<open>fetch\<close> and \<open>response.json()\<close> can do: \<open>fetch\<close> rejects (\<open>Rejected\<close>), or
  resolves to a response with a status code and a status text whose body
  \<open>response.json()\<close> either parses (\<open>Body\<close>) or rejects (\<open>BodyRejected\<close>). For a response
  that is not ok the script parses the body and drops the value, so only whether
  parsing settles matters there.
\<close>

datatype 'a body = BodyRejected string | Body 'a

datatype 'a response = Rejected string | Response nat string "'a body"

text \<open>\<open>response.ok\<close> of the Fetch standard: the status is in the range 200 to 299.\<close>

definition ok :: "nat \<Rightarrow> bool" where
  "ok status = (200 \<le> status \<and> status \<le> 299)"

record request =
  url :: string
  headers :: "(string \<times> string) list"

text \<open>
  A line of console output: \<open>console.log\<close> with its arguments, or \<open>console.error\<close>
  with its label and the error object.
\<close>

datatype line = Log "string list" | LogError string err

text \<open>
  The state a run changes: the console, the requests sent so far (in order) and the
  files on disk.
\<close>

record world =
  console :: "line list"
  requests :: "request list"
  files :: "string \<Rightarrow> string option"

text \<open>
  What a run reads and cannot change: the credential of the process environment, the
  network (one function for each type of body the script reads; the \<open>n\<close>-th request of
  the run is answered by the function applied to \<open>n\<close> and the request, so the answers
  may change while the run goes on), the clock reading taken by \<open>new Date()\<close> and the
  engine's parser for date strings outside the standard format.
\<close>

record env =
  accessToken :: "string option"
  net_repos :: "nat \<Rightarrow> request \<Rightarrow> repo list response"
  net_commits :: "nat \<Rightarrow> request \<Rightarrow> commit list response"
  net_search :: "nat \<Rightarrow> request \<Rightarrow> search response"
  net_user :: "nat \<Rightarrow> request \<Rightarrow> user response"
  now :: int
  hostParse :: "string \<Rightarrow> int option"

subsection \<open>Awaited calls, \<open>try\<close>/\<open>catch\<close>, console and files\<close>

text \<open>
  A computation takes the world and returns the changed world with either the error
  thrown (\<open>Inl\<close>) or the value returned (\<open>Inr\<close>). \<open>andThen\<close> is the sequencing of two
  statements (an \<open>await\<close> completes before the next statement starts), \<open>tryCatch\<close> a
  \<open>try\<close> block with its \<open>catch\<close> handler.
\<close>

type_synonym 'a comp = "world \<Rightarrow> (err + 'a) \<times> world"

definition ret :: "'a \<Rightarrow> 'a comp" where
  "ret x w = (Inr x, w)"

definition throw :: "err \<Rightarrow> 'a comp" where
  "throw e w = (Inl e, w)"

definition lift :: "err + 'a \<Rightarrow> 'a comp" where
  "lift r w = (r, w)"

definition andThen :: "'a comp \<Rightarrow> ('a \<Rightarrow> 'b comp) \<Rightarrow> 'b comp" where
  "andThen m f w = (case m w of (Inl e, w') \<Rightarrow> (Inl e, w') | (Inr x, w') \<Rightarrow> f x w')"

definition tryCatch :: "'a comp \<Rightarrow> (err \<Rightarrow> 'a comp) \<Rightarrow> 'a comp" where
  "tryCatch m h w = (case m w of (Inl e, w') \<Rightarrow> h e w' | (Inr x, w') \<Rightarrow> (Inr x, w'))"

definition console_log :: "string list \<Rightarrow> unit comp" where
  "console_log args w = (Inr (), w\<lparr>console := console w @ [Log args]\<rparr>)"

definition console_error :: "string \<Rightarrow> err \<Rightarrow> unit comp" where
  "console_error label e w = (Inr (), w\<lparr>console := console w @ [LogError label e]\<rparr>)"

text \<open>
  \<open>fs.readFileSync(path, "utf8")\<close> throws when the file does not exist;
  \<open>fs.writeFileSync(path, content, "utf8")\<close> replaces the file's content and is taken
  to succeed.
\<close>

definition readFileSync :: "string \<Rightarrow> string comp" where
  "readFileSync path w =
     (case files w path of None \<Rightarrow> (Inl (ENOENT path), w) | Some content \<Rightarrow> (Inr content, w))"

definition writeFileSync :: "string \<Rightarrow> string \<Rightarrow> unit comp" where
  "writeFileSync path content w = (Inr (), w\<lparr>files := (files w)(path \<mapsto> content)\<rparr>)"

subsection \<open>\<open>fetchData\<close> (the same in both variants)\<close>

definition username :: string where
  "username = ''la55u''"

definition bearer :: "string option \<Rightarrow> string" where
  "bearer tok = ''Bearer '' @ (case tok of None \<Rightarrow> ''undefined'' | Some t \<Rightarrow> t)"

definition requestFor :: "string option \<Rightarrow> string \<Rightarrow> request" where
  "requestFor tok path =
     \<lparr>url = ''https://api.github.com/'' @ path,
      headers =
        [(''Authorization'', bearer tok),
         (''Accept'', ''application/vnd.github+json''),
         (''User-Agent'', ''Node.js''),
         (''X-GitHub-Api-Version'', ''2022-11-28'')]\<rparr>"

text \<open>
  \<open>fetchData\<close>: log the path, send the request, and inside the \<open>try\<close> block either
  return the parsed body or throw; the \<open>catch\<close> handler wraps whatever was thrown in a
  new error whose \<open>cause\<close> is the error caught.
\<close>

definition fetchData ::
  "string option \<Rightarrow> (nat \<Rightarrow> request \<Rightarrow> 'a response) \<Rightarrow> string \<Rightarrow> 'a comp" where
  "fetchData tok net path =
     tryCatch
       (andThen (console_log [''Fetching: '', path]) (\<lambda>_ w.
          let req = requestFor tok path;
              w' = w\<lparr>requests := requests w @ [req]\<rparr>
          in case net (length (requests w)) req of
               Rejected m \<Rightarrow> (Inl (NetworkError m), w')
             | Response status statusText b \<Rightarrow>
                 if \<not> ok status then
                   (case b of
                      BodyRejected m \<Rightarrow> (Inl (BodyError m), w')
                    | Body errBody \<Rightarrow> (Inl (HttpError status statusText), w'))
                 else
                   (case b of
                      BodyRejected m \<Rightarrow> (Inl (BodyError m), w')
                    | Body data \<Rightarrow> (Inr data, w'))))
       (\<lambda>error. throw (FetchError path error))"

subsection \<open>\<open>fetchAll\<close>, first variant (lines 38 to 100)\<close>

text \<open>
  \<open>x.items[0].field\<close>: on an empty array \<open>items[0]\<close> is \<open>undefined\<close> and reading a
  property of it throws a \<open>TypeError\<close>.
\<close>

definition firstItem :: "item list \<Rightarrow> (item \<Rightarrow> 'a) \<Rightarrow> string \<Rightarrow> err + 'a" where
  "firstItem xs field fieldName =
     (case xs of [] \<Rightarrow> Inl (TypeError fieldName) | x # rest \<Rightarrow> Inr (field x))"

record stats1 =
  issuesOpened :: int
  pullRequestsOpened :: int
  pullRequestsMerged :: int
  commentsOnIssues :: int
  publicRepoCount :: int
  totalStars :: number
  totalCommits :: int
  registeredDate :: string
  firstPullRequestDate :: string
  sponsoredAccounts :: int
  statUpdated :: string
  followers :: int

text \<open>The \<open>forEach\<close> that adds up the stars.\<close>

definition sumStars1 :: "repo list \<Rightarrow> number" where
  "sumStars1 repositories =
     foldl (\<lambda>totalStars r. jsAdd totalStars (stargazers_count r)) (Finite 0) repositories"

text \<open>
  The \<open>for ... of\<close> loop over the repositories: each turn awaits the commit listing of
  one repository (at the path \<open>commitsPath\<close>, the template literal of line 51) and adds
  its length to \<open>totalCommits\<close>, here \<open>acc\<close>.
\<close>

definition commitsPath :: "repo \<Rightarrow> string" where
  "commitsPath r = ''repos/'' @ username @ ''/'' @ name r @ ''/commits''"

fun commitsLoop :: "env \<Rightarrow> repo list \<Rightarrow> int \<Rightarrow> int comp" where
  "commitsLoop e [] acc = ret acc"
| "commitsLoop e (r # rest) acc =
     andThen
       (fetchData (accessToken e) (net_commits e) (commitsPath r))
       (\<lambda>commitsData. commitsLoop e rest (acc + int (length commitsData)))"

definition fetchAll1 :: "env \<Rightarrow> stats1 option comp" where
  "fetchAll1 e =
     tryCatch
       (andThen (fetchData (accessToken e) (net_repos e)
                  (''users/'' @ username @ ''/repos?type=all&per_page=100'')) (\<lambda>repositories.
        andThen (commitsLoop e repositories 0) (\<lambda>totalCommits'.
        andThen (fetchData (accessToken e) (net_search e)
                  (''search/issues?q=author:'' @ username @ ''+type:issue'')) (\<lambda>issuesData.
        andThen (fetchData (accessToken e) (net_search e)
                  (''search/issues?q=author:'' @ username @ ''+type:pr&sort=created&order=asc''))
                (\<lambda>prs.
        andThen (lift (firstItem (items prs) item.created_at ''created_at''))
                (\<lambda>firstPullRequestDate'.
        andThen (fetchData (accessToken e) (net_search e)
                  (''search/issues?q=author:'' @ username @ ''+type:pr+is:merged''))
                (\<lambda>mergedPRs.
        andThen (fetchData (accessToken e) (net_search e)
                  (''search/issues?q=commenter:'' @ username)) (\<lambda>commentsOnIssuesData.
        andThen (fetchData (accessToken e) (net_user e) ''user'') (\<lambda>userData.
        andThen (lift (normalizeDate (hostParse e) (user.created_at userData)))
                (\<lambda>registeredDate'.
        andThen (lift (normalizeDate (hostParse e) firstPullRequestDate'))
                (\<lambda>firstPullRequestDate''.
        ret (Some
          \<lparr>issuesOpened = total_count issuesData,
           pullRequestsOpened = total_count prs,
           pullRequestsMerged = total_count mergedPRs,
           commentsOnIssues = total_count commentsOnIssuesData,
           publicRepoCount = public_repos userData,
           totalStars = sumStars1 repositories,
           totalCommits = totalCommits',
           registeredDate = registeredDate',
           firstPullRequestDate = firstPullRequestDate'',
           sponsoredAccounts = 3,
           statUpdated = isoDate (now e),
           followers = user.followers userData\<rparr>))))))))))))
       (\<lambda>error. andThen (console_error ''Something went wrong:'' error) (\<lambda>_. ret None))"

subsection \<open>\<open>fetchAll\<close>, second variant (lines 184 to 253)\<close>

record stats2 =
  issuesOpened :: int
  prsOpened :: int
  prsMerged :: int
  commentsOnIssues :: int
  publicRepoCount :: int
  totalStars :: number
  registeredDate :: string
  firstPRDate :: string
  firstPRUrl :: string
  sponsoredAccounts :: int
  statUpdated :: string
  followers :: int
  latestPRDate :: string
  latestPRUrl :: string

text \<open>The \<open>forEach\<close> that adds up the stars of the repositories that are not private.\<close>

definition sumStars2 :: "repo list \<Rightarrow> number" where
  "sumStars2 repositories =
     foldl (\<lambda>totalStars r.
              if \<not> isPrivate r then jsAdd totalStars (stargazers_count r) else totalStars)
       (Finite 0) repositories"

definition fetchAll2 :: "env \<Rightarrow> stats2 comp" where
  "fetchAll2 e =
     tryCatch
       (andThen (fetchData (accessToken e) (net_repos e)
                  (''users/'' @ username @ ''/repos?type=public&per_page=100'')) (\<lambda>repositories.
        andThen (fetchData (accessToken e) (net_search e)
                  (''search/issues?q=author:'' @ username @ ''+type:issue'')) (\<lambda>issuesData.
        andThen (fetchData (accessToken e) (net_search e)
                  (''search/issues?q=author:'' @ username
                     @ ''+type:pr&sort=created&order=asc&per_page=1'')) (\<lambda>firstPrData.
        andThen (lift (firstItem (items firstPrData) item.created_at ''created_at''))
                (\<lambda>firstPRDate'.
        andThen (lift (firstItem (items firstPrData) html_url ''html_url'')) (\<lambda>firstPRUrl'.
        andThen (fetchData (accessToken e) (net_search e)
                  (''search/issues?q=author:'' @ username
                     @ ''+type:pr&sort=created&order=desc&per_page=1'')) (\<lambda>latestPrData.
        andThen (lift (firstItem (items latestPrData) item.created_at ''created_at''))
                (\<lambda>latestPRDate'.
        andThen (lift (firstItem (items latestPrData) html_url ''html_url'')) (\<lambda>latestPRUrl'.
        andThen (fetchData (accessToken e) (net_search e)
                  (''search/issues?q=author:'' @ username @ ''+type:pr+is:merged''))
                (\<lambda>mergedPRs.
        andThen (fetchData (accessToken e) (net_search e)
                  (''search/issues?q=commenter:'' @ username)) (\<lambda>commentsOnIssuesData.
        andThen (fetchData (accessToken e) (net_user e) (''users/'' @ username)) (\<lambda>userData.
        andThen (lift (normalizeDate (hostParse e) (user.created_at userData)))
                (\<lambda>registeredDate'.
        andThen (lift (normalizeDate (hostParse e) firstPRDate')) (\<lambda>firstPRDate''.
        andThen (lift (normalizeDate (hostParse e) latestPRDate')) (\<lambda>latestPRDate''.
        ret
          \<lparr>issuesOpened = total_count issuesData,
           prsOpened = total_count firstPrData,
           prsMerged = total_count mergedPRs,
           commentsOnIssues = total_count commentsOnIssuesData,
           publicRepoCount = public_repos userData,
           totalStars = sumStars2 repositories,
           registeredDate = registeredDate',
           firstPRDate = firstPRDate'',
           firstPRUrl = firstPRUrl',
           sponsoredAccounts = 3,
           statUpdated = isoDate (now e),
           followers = user.followers userData,
           latestPRDate = latestPRDate'',
           latestPRUrl = latestPRUrl'\<rparr>)))))))))))))))
       (\<lambda>error. andThen (console_error ''Error fetching data:'' error) (\<lambda>_.
          throw (Rethrown error)))"

subsection \<open>\<open>loadTemplate\<close>, \<open>generateReadme\<close> and \<open>main\<close>\<close>

text \<open>
  The template engine is the external library \<open>handlebars\<close>; \<open>handlebars.compile\<close>
  followed by the call of the compiled template is a parameter of the model: a function
  from the template text and the data to the document, or to the error it throws.
\<close>

definition loadTemplate :: "string \<Rightarrow> string comp" where
  "loadTemplate templateFilePath =
     tryCatch (readFileSync templateFilePath)
       (\<lambda>error. andThen (console_error ''Error loading template:'' error) (\<lambda>_. throw error))"

definition generateReadme ::
  "(string \<Rightarrow> 'd \<Rightarrow> err + string) \<Rightarrow> string \<Rightarrow> 'd \<Rightarrow> string comp" where
  "generateReadme handlebars templateFilePath data =
     tryCatch
       (andThen (loadTemplate templateFilePath) (\<lambda>templateContent.
          lift (handlebars templateContent data)))
       (\<lambda>error. andThen (console_error ''Error generating README content:'' error) (\<lambda>_.
          throw error))"

text \<open>
  \<open>main\<close> of the first variant (lines 133 to 142). \<open>fetchAll\<close> returns \<open>undefined\<close>
  (\<open>None\<close>) after it caught an error, and \<open>main\<close> hands that to \<open>generateReadme\<close>.
\<close>

definition main1 :: "(string \<Rightarrow> stats1 option \<Rightarrow> err + string) \<Rightarrow> env \<Rightarrow> unit comp" where
  "main1 handlebars e =
     tryCatch
       (andThen (fetchAll1 e) (\<lambda>data.
        andThen (generateReadme handlebars ''README.md.hbs'' data) (\<lambda>readmeContent.
        andThen (writeFileSync ''README.md'' readmeContent) (\<lambda>_.
        console_log [''README file updated successfully.'']))))
       (\<lambda>error. console_error ''Error updating README file:'' error)"

text \<open>\<open>main\<close> of the second variant (lines 286 to 295).\<close>

definition main2 :: "(string \<Rightarrow> stats2 \<Rightarrow> err + string) \<Rightarrow> env \<Rightarrow> unit comp" where
  "main2 handlebars e =
     tryCatch
       (andThen (fetchAll2 e) (\<lambda>data.
        andThen (generateReadme handlebars ''README.md.hbs'' data) (\<lambda>readmeContent.
        andThen (writeFileSync ''README.md'' readmeContent) (\<lambda>_.
        console_log [''README file updated successfully.'']))))
       (\<lambda>error. console_error ''Error updating README file:'' error)"

subsection \<open>Auxiliary notions for stating the properties\<close>

text \<open>
  The body \<open>fetchData\<close> returns for a response (\<open>None\<close> when it throws), and the world
  after one call of \<open>fetchData\<close>: one more console line, one more request.
\<close>

definition fetchedBody :: "'a response \<Rightarrow> 'a option" where
  "fetchedBody r =
     (case r of
        Rejected m \<Rightarrow> None
      | Response status statusText b \<Rightarrow>
          (case b of BodyRejected m \<Rightarrow> None | Body d \<Rightarrow> if ok status then Some d else None))"

definition sent :: "string option \<Rightarrow> string \<Rightarrow> world \<Rightarrow> world" where
  "sent tok path w =
     w\<lparr>console := console w @ [Log [''Fetching: '', path]],
       requests := requests w @ [requestFor tok path]\<rparr>"

text \<open>The world after \<open>fetchData\<close> was called for each path of a list, in order.\<close>

definition sentAll :: "string option \<Rightarrow> string list \<Rightarrow> world \<Rightarrow> world" where
  "sentAll tok paths w = foldl (\<lambda>w' path. sent tok path w') w paths"


text \<open>A computation that leaves every file as it was.\<close>

definition framed :: "'a comp \<Rightarrow> bool" where
  "framed m = (\<forall>w. files (snd (m w)) = files w)"


text \<open>
  A computation with a function applied to the value it returns; an error and the world
  are passed on as they are.
\<close>

definition mapResult :: "('a \<Rightarrow> 'b) \<Rightarrow> 'a comp \<Rightarrow> 'b comp" where
  "mapResult g m w = (case m w of (Inl err, w') \<Rightarrow> (Inl err, w') | (Inr x, w') \<Rightarrow> (Inr (g x), w'))"

subsection \<open>An example run\<close>

text \<open>
  The example of the specification: three repositories with 1, 2 and 3 stars (the second
  one private), searches that return five matches and list two items (oldest first, but
  newest first for the query that asks for descending order), and a commit listing whose length is the number of the request that asked for it, so that
  the listings of the three repositories hold 1, 2 and 3 commits. The template has no
  placeholder, and \<open>README.md\<close> holds the output of an earlier run.
\<close>

definition demoRepos :: "repo list" where
  "demoRepos =
     [\<lparr>name = ''alpha'', stargazers_count = 1, isPrivate = False\<rparr>,
      \<lparr>name = ''beta'', stargazers_count = 2, isPrivate = True\<rparr>,
      \<lparr>name = ''gamma'', stargazers_count = 3, isPrivate = False\<rparr>]"

definition demoSearch :: search where
  "demoSearch =
     \<lparr>total_count = 5,
      items = [\<lparr>item.created_at = ''2011-01-26T19:01:12Z'',
                html_url = ''https://github.com/o/r/pull/1''\<rparr>,
               \<lparr>item.created_at = ''2012-02-03T04:05:06Z'',
                html_url = ''https://github.com/o/r/pull/2''\<rparr>]\<rparr>"

definition demoSearchDesc :: search where
  "demoSearchDesc =
     \<lparr>total_count = 5,
      items = [\<lparr>item.created_at = ''2012-02-03T04:05:06Z'',
                html_url = ''https://github.com/o/r/pull/2''\<rparr>,
               \<lparr>item.created_at = ''2011-01-26T19:01:12Z'',
                html_url = ''https://github.com/o/r/pull/1''\<rparr>]\<rparr>"

definition descUrl :: string where
  "descUrl =
     ''https://api.github.com/search/issues?q=author:la55u+type:pr&sort=created&order=desc&per_page=1''"

definition demoUser :: user where
  "demoUser = \<lparr>created_at = ''2010-05-04T03:02:01Z'', public_repos = 7, followers = 9\<rparr>"

definition demoEnv :: env where
  "demoEnv =
     \<lparr>accessToken = Some ''token'',
      net_repos = (\<lambda>n r. Response 200 ''OK'' (Body demoRepos)),
      net_commits = (\<lambda>n r. Response 200 ''OK'' (Body (replicate n \<lparr>sha = ''c''\<rparr>))),
      net_search =
        (\<lambda>n r. Response 200 ''OK'' (Body (if url r = descUrl then demoSearchDesc else demoSearch))),
      net_user = (\<lambda>n r. Response 200 ''OK'' (Body demoUser)),
      now = 1700000000000,
      hostParse = (\<lambda>s. None)\<rparr>"

definition world0 :: world where
  "world0 =
     \<lparr>console = [], requests = [],
      files = [''README.md.hbs'' \<mapsto> ''# Stats'', ''README.md'' \<mapsto> ''old'']\<rparr>"

definition demoStats1 :: stats1 where
  "demoStats1 =
     \<lparr>stats1.issuesOpened = 5, pullRequestsOpened = 5, pullRequestsMerged = 5,
      stats1.commentsOnIssues = 5, stats1.publicRepoCount = 7, stats1.totalStars = Finite 6,
      totalCommits = 6, stats1.registeredDate = ''2010-05-04'',
      firstPullRequestDate = ''2011-01-26'', stats1.sponsoredAccounts = 3,
      stats1.statUpdated = ''2023-11-14'', stats1.followers = 9\<rparr>"

definition demoStats2 :: stats2 where
  "demoStats2 =
     \<lparr>stats2.issuesOpened = 5, prsOpened = 5, prsMerged = 5, commentsOnIssues = 5,
      publicRepoCount = 7, totalStars = Finite 4, registeredDate = ''2010-05-04'',
      firstPRDate = ''2011-01-26'', firstPRUrl = ''https://github.com/o/r/pull/1'',
      sponsoredAccounts = 3, statUpdated = ''2023-11-14'', followers = 9,
      latestPRDate = ''2012-02-03'', latestPRUrl = ''https://github.com/o/r/pull/2''\<rparr>"


text \<open>
  Two variations of the example: one whose repositories have so many stars that their
  sum is no double, and one whose second commit listing (the third request of the run)
  fails.
\<close>

definition starRepos :: "repo list" where
  "starRepos =
     [\<lparr>name = ''alpha'', stargazers_count = 9007199254740991, isPrivate = False\<rparr>,
      \<lparr>name = ''gamma'', stargazers_count = 2, isPrivate = False\<rparr>]"

definition starEnv :: env where
  "starEnv = demoEnv\<lparr>net_repos := (\<lambda>n r. Response 200 ''OK'' (Body starRepos))\<rparr>"


definition failEnv :: env where
  "failEnv =
     demoEnv\<lparr>net_commits :=
       (\<lambda>n r. if n = 2 then Rejected ''fetch failed''
              else Response 200 ''OK'' (Body (replicate n \<lparr>sha = ''c''\<rparr>)))\<rparr>"


section \<open>Properties of the runtime model\<close>

subsection \<open>Years, months and days\<close>

lemma DayFromYear_1970: "DayFromYear 1970 = 0"
  by (simp add: DayFromYear_def)

lemma DayFromYear_mono: "y \<le> y' \<Longrightarrow> DayFromYear y \<le> DayFromYear y'"
proof (induction y' rule: int_ge_induct)
  case base
  show ?case by simp
next
  case (step i)
  then show ?case
    using DayFromYear_Suc [of i] DaysInYear_bounds [of i] by simp
qed

lemma DayFromYear_strict: "y < y' \<Longrightarrow> DayFromYear y < DayFromYear y'"
  using DayFromYear_mono [of "y + 1" y'] DayFromYear_Suc [of y] DaysInYear_bounds [of y]
  by simp

lemma DayFromYear_lower_pos: "0 \<le> k \<Longrightarrow> 365 * k \<le> DayFromYear (1970 + k)"
proof (induction k rule: int_ge_induct)
  case base
  show ?case by (simp add: DayFromYear_1970)
next
  case (step i)
  then show ?case
    using DayFromYear_Suc [of "1970 + i"] DaysInYear_bounds [of "1970 + i"]
    by (simp add: add.assoc)
qed

lemma DayFromYear_lower_neg: "k \<le> 0 \<Longrightarrow> 366 * k \<le> DayFromYear (1970 + k)"
proof (induction k rule: int_le_induct)
  case base
  show ?case by (simp add: DayFromYear_1970)
next
  case (step i)
  then show ?case
    using DayFromYear_Suc [of "1970 + i - 1"] DaysInYear_bounds [of "1970 + i - 1"]
    by (simp add: algebra_simps)
qed

lemma yearSearch_le: "DayFromYear (yearSearch y d) \<le> d"
  by (induction y d rule: yearSearch.induct) (subst yearSearch.simps, simp)

lemma yearSearch_max:
  "d < DayFromYear (y + 1) \<Longrightarrow> d < DayFromYear (yearSearch y d + 1)"
  by (induction y d rule: yearSearch.induct) (subst yearSearch.simps, simp add: not_le)

lemma start_above: "d < DayFromYear (1970 + (if 0 \<le> d then d div 365 else d div 366) + 1)"
proof (cases "0 \<le> d")
  case True
  have "d < 365 * (d div 365 + 1)"
  proof -
    have "d mod 365 < 365" by simp
    then show ?thesis using mult_div_mod_eq [of 365 d] by (simp add: distrib_left)
  qed
  moreover have "365 * (d div 365 + 1) \<le> DayFromYear (1970 + (d div 365 + 1))"
    using True by (intro DayFromYear_lower_pos) (simp add: pos_imp_zdiv_nonneg_iff)
  ultimately show ?thesis using True by (simp add: add.assoc)
next
  case False
  have "d < 366 * (d div 366 + 1)"
  proof -
    have "d mod 366 < 366" by simp
    then show ?thesis using mult_div_mod_eq [of 366 d] by (simp add: distrib_left)
  qed
  moreover have "d div 366 + 1 \<le> 0"
    using False by (simp add: div_neg_pos_less0 zless_imp_add1_zle)
  then have "366 * (d div 366 + 1) \<le> DayFromYear (1970 + (d div 366 + 1))"
    by (rule DayFromYear_lower_neg)
  ultimately show ?thesis using False by (simp add: add.assoc)
qed

lemma YearFromDay_le: "DayFromYear (YearFromDay d) \<le> d"
  by (simp add: YearFromDay_def yearSearch_le)

lemma YearFromDay_gt: "d < DayFromYear (YearFromDay d + 1)"
  unfolding YearFromDay_def by (rule yearSearch_max) (rule start_above)

lemma YearFromDay_unique:
  assumes "DayFromYear y \<le> d" and "d < DayFromYear (y + 1)"
  shows "YearFromDay d = y"
proof (rule ccontr)
  assume ne: "YearFromDay d \<noteq> y"
  show False
  proof (cases "YearFromDay d < y")
    case True
    then have "DayFromYear (YearFromDay d + 1) \<le> DayFromYear y"
      by (intro DayFromYear_mono) simp
    then show False using YearFromDay_gt [of d] assms(1) by simp
  next
    case False
    then have "DayFromYear (y + 1) \<le> DayFromYear (YearFromDay d)"
      using ne by (intro DayFromYear_mono) simp
    then show False using YearFromDay_le [of d] assms(2) by simp
  qed
qed

lemma InLeapYear_cases: "InLeapYear y = 0 \<or> InLeapYear y = 1"
  by (simp add: InLeapYear_def)

lemma DaysInYear_leap: "DaysInYear y = 365 + InLeapYear y"
  using DaysInYear_bounds [of y] by (simp add: InLeapYear_def DaysInYear_def)

lemma DayWithinYear_bounds:
  "0 \<le> DayWithinYear t \<and> DayWithinYear t < 365 + InLeapYear (YearFromTime t)"
  using YearFromDay_le [of "Day t"] YearFromDay_gt [of "Day t"]
    DayFromYear_Suc [of "YearFromDay (Day t)"] DaysInYear_leap [of "YearFromDay (Day t)"]
  by (simp add: DayWithinYear_def YearFromTime_def)

lemma monthOfYearDay_range:
  "0 \<le> monthOfYearDay leap dy \<and> monthOfYearDay leap dy \<le> 11"
  by (simp add: monthOfYearDay_def)

lemma monthOfYearDay_start:
  assumes "leap = 0 \<or> leap = 1" and "0 \<le> dy" and "dy < 365 + leap"
  shows "monthStart leap (monthOfYearDay leap dy) \<le> dy
    \<and> dy < monthStart leap (monthOfYearDay leap dy) + 31"
  using assms by (auto simp: monthOfYearDay_def monthStart_def)

lemma MonthFromTime_range: "0 \<le> MonthFromTime t \<and> MonthFromTime t \<le> 11"
  by (simp add: MonthFromTime_def monthOfYearDay_range)

lemma DateFromTime_range: "1 \<le> DateFromTime t \<and> DateFromTime t \<le> 31"
  using monthOfYearDay_start [OF InLeapYear_cases, of "DayWithinYear t" "YearFromTime t"]
    DayWithinYear_bounds [of t]
  by (simp add: DateFromTime_def MonthFromTime_def)

lemma monthOfYearDay_monthStart:
  assumes "leap = 0 \<or> leap = 1" and "0 \<le> m" and "m \<le> 11" and "1 \<le> d"
    and "d \<le> monthStart leap (m + 1) - monthStart leap m"
  shows "monthOfYearDay leap (monthStart leap m + d - 1) = m"
proof -
  from assms(2,3) have "m = 0 \<or> m = 1 \<or> m = 2 \<or> m = 3 \<or> m = 4 \<or> m = 5 \<or> m = 6
      \<or> m = 7 \<or> m = 8 \<or> m = 9 \<or> m = 10 \<or> m = 11"
    by arith
  then show ?thesis
    using assms(1,4,5) by (elim disjE) (auto simp: monthOfYearDay_def monthStart_def)
qed

lemma monthStart_in_year:
  assumes "leap = 0 \<or> leap = 1" and "0 \<le> m" and "m \<le> 11" and "1 \<le> d"
    and "d \<le> monthStart leap (m + 1) - monthStart leap m"
  shows "0 \<le> monthStart leap m + d - 1 \<and> monthStart leap m + d - 1 < 365 + leap"
proof -
  from assms(2,3) have "m = 0 \<or> m = 1 \<or> m = 2 \<or> m = 3 \<or> m = 4 \<or> m = 5 \<or> m = 6
      \<or> m = 7 \<or> m = 8 \<or> m = 9 \<or> m = 10 \<or> m = 11"
    by arith
  then show ?thesis
    using assms(1,4,5) by (elim disjE) (auto simp: monthStart_def)
qed

lemma MakeDay_year:
  assumes "1 \<le> m" "m \<le> 12" "1 \<le> d" "d \<le> DaysInMonth y m"
  shows "YearFromDay (MakeDay y (m - 1) d) = y"
proof -
  have r: "0 \<le> monthStart (InLeapYear y) (m - 1) + d - 1
      \<and> monthStart (InLeapYear y) (m - 1) + d - 1 < 365 + InLeapYear y"
    using assms by (intro monthStart_in_year InLeapYear_cases) (simp_all add: DaysInMonth_def)
  show ?thesis
    using r DayFromYear_Suc [of y] DaysInYear_leap [of y]
    by (intro YearFromDay_unique) (simp_all add: MakeDay_def)
qed

lemma Day_MakeDate: "0 \<le> time \<Longrightarrow> time < msPerDay \<Longrightarrow> Day (MakeDate day time) = day"
  by (simp add: Day_def MakeDate_def msPerDay_def div_pos_pos_trivial)

lemma TimeWithinDay_MakeDate:
  "0 \<le> time \<Longrightarrow> time < msPerDay \<Longrightarrow> TimeWithinDay (MakeDate day time) = time"
  by (simp add: TimeWithinDay_def MakeDate_def msPerDay_def)

lemma civil_roundtrip:
  assumes "1 \<le> m" "m \<le> 12" "1 \<le> d" "d \<le> DaysInMonth y m"
    and "0 \<le> time" "time < msPerDay"
  shows "YearFromTime (MakeDate (MakeDay y (m - 1) d) time) = y"
    and "MonthFromTime (MakeDate (MakeDay y (m - 1) d) time) + 1 = m"
    and "DateFromTime (MakeDate (MakeDay y (m - 1) d) time) = d"
proof -
  let ?t = "MakeDate (MakeDay y (m - 1) d) time"
  have day: "Day ?t = MakeDay y (m - 1) d"
    using assms(5,6) by (rule Day_MakeDate)
  show yr: "YearFromTime ?t = y"
    using MakeDay_year [OF assms(1-4)] by (simp add: YearFromTime_def day)
  have dwy: "DayWithinYear ?t = monthStart (InLeapYear y) (m - 1) + d - 1"
    unfolding DayWithinYear_def yr day by (simp add: MakeDay_def)
  have mo: "monthOfYearDay (InLeapYear y) (monthStart (InLeapYear y) (m - 1) + d - 1) = m - 1"
    using assms(1-4) by (intro monthOfYearDay_monthStart InLeapYear_cases) (simp_all add: DaysInMonth_def)
  show "MonthFromTime ?t + 1 = m"
    unfolding MonthFromTime_def yr dwy mo by simp
  show "DateFromTime ?t = d"
    unfolding DateFromTime_def MonthFromTime_def yr dwy mo by simp
qed

subsection \<open>Digits and date strings\<close>

lemma length_pad [simp]: "length (pad k n) = k"
  by (induction k arbitrary: n) simp_all

lemma isDigit_digitChar: "r < 10 \<Longrightarrow> isDigit (digitChar r)"
  by (simp add: isDigit_def digitChar_def)

lemma digitVal_digitChar: "r < 10 \<Longrightarrow> digitVal (digitChar r) = r"
  by (simp add: digitVal_def digitChar_def)

lemma list_all_pad [simp]: "list_all isDigit (pad k n)"
  by (induction k arbitrary: n) (simp_all add: isDigit_digitChar)

lemma readNat_append:
  "readNat acc (xs @ ys) = (case readNat acc xs of None \<Rightarrow> None | Some v \<Rightarrow> readNat v ys)"
  by (induction xs arbitrary: acc) simp_all

lemma readNat_pad: "readNat acc (pad k n) = Some (acc * 10 ^ k + n mod 10 ^ k)"
proof (induction k arbitrary: n)
  case 0
  then show ?case by simp
next
  case (Suc k)
  have "n mod (10 * 10 ^ k) = 10 * (n div 10 mod 10 ^ k) + n mod 10"
    by (simp add: mod_mult2_eq)
  then show ?case
    by (simp add: readNat_append Suc isDigit_digitChar digitVal_digitChar algebra_simps)
qed

lemma readNat_pad_small: "n < 10 ^ k \<Longrightarrow> readNat 0 (pad k n) = Some n"
  by (simp add: readNat_pad)

lemma yearString_small: "0 \<le> y \<Longrightarrow> y \<le> 9999 \<Longrightarrow> yearString y = pad 4 (nat y)"
  by (simp add: yearString_def)

lemma dateString_parts:
  assumes "0 \<le> y" "y \<le> 9999"
  shows "length (dateString y m d) = 10"
    and "dateString y m d ! 4 = CHR ''-''"
    and "dateString y m d ! 7 = CHR ''-''"
    and "take 4 (dateString y m d) = pad 4 (nat y)"
    and "take 2 (drop 5 (dateString y m d)) = pad 2 (nat m)"
    and "drop 8 (dateString y m d) = pad 2 (nat d)"
  using assms by (simp_all add: dateString_def yearString_small nth_append)

lemma isoDateForm_dateString:
  "0 \<le> y \<Longrightarrow> y \<le> 9999 \<Longrightarrow> isoDateForm (dateString y m d)"
  by (simp add: isoDateForm_def dateString_parts)

lemma take10_isoString:
  assumes "0 \<le> YearFromTime t" "YearFromTime t \<le> 9999"
  shows "take 10 (isoString t)
    = dateString (YearFromTime t) (MonthFromTime t + 1) (DateFromTime t)"
  using dateString_parts(1) [OF assms, of "MonthFromTime t + 1" "DateFromTime t"]
  by (simp add: isoString_def)

lemma DayFromYear_0: "DayFromYear 0 = -719528"
  by (simp add: DayFromYear_def)

lemma DayFromYear_10000: "DayFromYear 10000 = 2932897"
  by (simp add: DayFromYear_def)

lemma MakeDay_bounds:
  assumes "0 \<le> y" "y \<le> 9999" "1 \<le> m" "m \<le> 12" "1 \<le> d" "d \<le> DaysInMonth y m"
  shows "-719528 \<le> MakeDay y (m - 1) d \<and> MakeDay y (m - 1) d < 2932897"
proof -
  have r: "0 \<le> monthStart (InLeapYear y) (m - 1) + d - 1
      \<and> monthStart (InLeapYear y) (m - 1) + d - 1 < 365 + InLeapYear y"
    using assms by (intro monthStart_in_year InLeapYear_cases) (simp_all add: DaysInMonth_def)
  have "DayFromYear 0 \<le> DayFromYear y" using assms(1) by (rule DayFromYear_mono)
  moreover have "DayFromYear (y + 1) \<le> DayFromYear 10000"
    using assms(2) by (intro DayFromYear_mono) simp
  ultimately show ?thesis
    using r DayFromYear_Suc [of y] DaysInYear_leap [of y]
    by (simp add: MakeDay_def DayFromYear_0 DayFromYear_10000)
qed

lemma parseDay_dateString:
  assumes "0 \<le> y" "y \<le> 9999" "1 \<le> m" "m \<le> 12" "1 \<le> d" "d \<le> DaysInMonth y m"
  shows "parseDay (dateString y m d) = Some (MakeDay y (m - 1) d)"
proof -
  have d31: "d \<le> 31"
    using assms(3,4,6) InLeapYear_cases [of y]
    by (auto simp: DaysInMonth_def monthStart_def split: if_splits)
  have ry: "readNat 0 (pad 4 (nat y)) = Some (nat y)"
    using assms(1,2) by (intro readNat_pad_small) simp
  have rm: "readNat 0 (pad 2 (nat m)) = Some (nat m)"
    using assms(3,4) by (intro readNat_pad_small) simp
  have rd: "readNat 0 (pad 2 (nat d)) = Some (nat d)"
    using assms(5) d31 by (intro readNat_pad_small) simp
  have n: "1 \<le> nat m" "nat m \<le> 12" "1 \<le> nat d"
    using assms(3,4,5) by simp_all
  show ?thesis
    using assms n by (simp add: parseDay_def dateString_parts ry rm rd)
qed

lemma normalizeDate_dateString:
  assumes "0 \<le> y" "y \<le> 9999" "1 \<le> m" "m \<le> 12" "1 \<le> d" "d \<le> DaysInMonth y m"
  shows "normalizeDate h (dateString y m d) = Inr (dateString y m d)"
proof -
  let ?t = "MakeDate (MakeDay y (m - 1) d) 0"
  have p: "parseISO (dateString y m d) = Some ?t"
    using assms by (simp add: parseISO_def dateString_parts parseDay_dateString)
  have "- 8640000000000000 \<le> MakeDay y (m - 1) d * 86400000
      \<and> MakeDay y (m - 1) d * 86400000 \<le> 8640000000000000"
    using MakeDay_bounds [OF assms] by linarith
  then have clip: "TimeClip ?t = Some ?t"
    by (simp add: TimeClip_def MakeDate_def msPerDay_def abs_le_iff)
  have z: "(0::int) \<le> 0" "(0::int) < msPerDay" by (simp_all add: msPerDay_def)
  have yr: "YearFromTime ?t = y" and mo: "MonthFromTime ?t + 1 = m" and da: "DateFromTime ?t = d"
    using civil_roundtrip [OF assms(3-6) z] by simp_all
  have "take 10 (isoString ?t) = dateString y m d"
    using take10_isoString [of ?t] assms(1,2) by (simp add: yr mo da)
  then show ?thesis
    by (simp add: normalizeDate_def Date_parse_def p clip toISOString_def)
qed

section \<open>Properties of the script\<close>

subsection \<open>Sequencing and \<open>fetchData\<close>\<close>

lemma ret_simp [simp]: "ret x w = (Inr x, w)"
  by (simp add: ret_def)

lemma throw_simp [simp]: "throw e w = (Inl e, w)"
  by (simp add: throw_def)

lemma lift_simp [simp]: "lift r w = (r, w)"
  by (simp add: lift_def)

lemma andThen_Inr:
  "andThen m f w = (Inr y, w'') \<longleftrightarrow> (\<exists>x w'. m w = (Inr x, w') \<and> f x w' = (Inr y, w''))"
  by (auto simp: andThen_def split: prod.splits sum.splits)

lemma andThen_Inl:
  "andThen m f w = (Inl e, w'') \<longleftrightarrow>
     m w = (Inl e, w'') \<or> (\<exists>x w'. m w = (Inr x, w') \<and> f x w' = (Inl e, w''))"
  by (auto simp: andThen_def split: prod.splits sum.splits)

lemma andThen_step: "m w = (Inr x, w') \<Longrightarrow> andThen m f w = f x w'"
  by (simp add: andThen_def)

lemma andThen_fail: "m w = (Inl e, w') \<Longrightarrow> andThen m f w = (Inl e, w')"
  by (simp add: andThen_def)

lemma tryCatch_Inr:
  "tryCatch m h w = (Inr y, w'') \<longleftrightarrow>
     m w = (Inr y, w'') \<or> (\<exists>e w'. m w = (Inl e, w') \<and> h e w' = (Inr y, w''))"
  by (auto simp: tryCatch_def split: prod.splits sum.splits)

lemma tryCatch_ok: "m w = (Inr x, w') \<Longrightarrow> tryCatch m h w = (Inr x, w')"
  by (simp add: tryCatch_def)

lemma tryCatch_caught: "m w = (Inl e, w') \<Longrightarrow> tryCatch m h w = h e w'"
  by (simp add: tryCatch_def)

lemma fetchData_eq:
  "fetchData tok net path w =
     ((case net (length (requests w)) (requestFor tok path) of
         Rejected m \<Rightarrow> Inl (FetchError path (NetworkError m))
       | Response status statusText b \<Rightarrow>
           (case b of
              BodyRejected m \<Rightarrow> Inl (FetchError path (BodyError m))
            | Body d \<Rightarrow> if ok status then Inr d else Inl (FetchError path (HttpError status statusText)))),
      sent tok path w)"
  by (simp add: fetchData_def tryCatch_def andThen_def console_log_def sent_def Let_def
      split: response.splits body.splits)

lemma fetchData_Inr:
  "fetchData tok net path w = (Inr d, w') \<longleftrightarrow>
     fetchedBody (net (length (requests w)) (requestFor tok path)) = Some d \<and> w' = sent tok path w"
  by (auto simp: fetchData_eq fetchedBody_def split: response.splits body.splits if_splits)

lemma snd_fetchData [simp]: "snd (fetchData tok net path w) = sent tok path w"
  by (simp add: fetchData_eq)

lemma sent_fields [simp]:
  "files (sent tok path w) = files w"
  "requests (sent tok path w) = requests w @ [requestFor tok path]"
  "console (sent tok path w) = console w @ [Log [''Fetching: '', path]]"
  by (simp_all add: sent_def)

lemma sentAll_Nil [simp]: "sentAll tok [] w = w"
  by (simp add: sentAll_def)

lemma sentAll_Cons [simp]: "sentAll tok (p # ps) w = sentAll tok ps (sent tok p w)"
  by (simp add: sentAll_def)

lemma sentAll_append [simp]: "sentAll tok (ps @ qs) w = sentAll tok qs (sentAll tok ps w)"
  by (simp add: sentAll_def)

lemma sentAll_fields [simp]:
  "files (sentAll tok ps w) = files w"
  "requests (sentAll tok ps w) = requests w @ map (requestFor tok) ps"
  "console (sentAll tok ps w) = console w @ map (\<lambda>p. Log [''Fetching: '', p]) ps"
  by (induction ps arbitrary: w) simp_all

lemma firstItem_Inr:
  "firstItem xs field fieldName = Inr v \<longleftrightarrow> xs \<noteq> [] \<and> v = field (hd xs)"
  by (auto simp: firstItem_def split: list.splits)

lemma fetchAll2_handler:
  "tryCatch m (\<lambda>error. andThen (console_error label error) (\<lambda>_. throw (f error))) w = (Inr s, w')
     \<longleftrightarrow> m w = (Inr s, w')"
  by (auto simp: tryCatch_def andThen_def console_error_def split: prod.splits sum.splits)

lemma andThen_InrE:
  assumes "andThen m f w = (Inr y, w'')"
  obtains x w' where "m w = (Inr x, w')" and "f x w' = (Inr y, w'')"
  using assms by (auto simp: andThen_Inr)

lemma fetchAll2_success:
  assumes "fetchAll2 e w = (Inr s, w')"
  shows "\<exists>repos issues firstPr latestPr merged comments u.
      fetchedBody (net_repos e (length (requests w))
        (requestFor (accessToken e) ''users/la55u/repos?type=public&per_page=100'')) = Some repos
    \<and> fetchedBody (net_search e (length (requests w) + 1)
        (requestFor (accessToken e) ''search/issues?q=author:la55u+type:issue'')) = Some issues
    \<and> fetchedBody (net_search e (length (requests w) + 2)
        (requestFor (accessToken e)
          ''search/issues?q=author:la55u+type:pr&sort=created&order=asc&per_page=1'')) = Some firstPr
    \<and> items firstPr \<noteq> []
    \<and> fetchedBody (net_search e (length (requests w) + 3)
        (requestFor (accessToken e)
          ''search/issues?q=author:la55u+type:pr&sort=created&order=desc&per_page=1'')) = Some latestPr
    \<and> items latestPr \<noteq> []
    \<and> fetchedBody (net_search e (length (requests w) + 4)
        (requestFor (accessToken e) ''search/issues?q=author:la55u+type:pr+is:merged'')) = Some merged
    \<and> fetchedBody (net_search e (length (requests w) + 5)
        (requestFor (accessToken e) ''search/issues?q=commenter:la55u'')) = Some comments
    \<and> fetchedBody (net_user e (length (requests w) + 6)
        (requestFor (accessToken e) ''users/la55u'')) = Some u
    \<and> normalizeDate (hostParse e) (user.created_at u) = Inr (stats2.registeredDate s)
    \<and> normalizeDate (hostParse e) (item.created_at (hd (items firstPr))) = Inr (firstPRDate s)
    \<and> normalizeDate (hostParse e) (item.created_at (hd (items latestPr))) = Inr (latestPRDate s)
    \<and> stats2.issuesOpened s = total_count issues
    \<and> prsOpened s = total_count firstPr
    \<and> prsMerged s = total_count merged
    \<and> stats2.commentsOnIssues s = total_count comments
    \<and> stats2.publicRepoCount s = public_repos u
    \<and> stats2.totalStars s = sumStars2 repos
    \<and> firstPRUrl s = html_url (hd (items firstPr))
    \<and> stats2.sponsoredAccounts s = 3
    \<and> stats2.statUpdated s = isoDate (now e)
    \<and> stats2.followers s = user.followers u
    \<and> latestPRUrl s = html_url (hd (items latestPr))
    \<and> w' = sentAll (accessToken e)
          [''users/la55u/repos?type=public&per_page=100'',
           ''search/issues?q=author:la55u+type:issue'',
           ''search/issues?q=author:la55u+type:pr&sort=created&order=asc&per_page=1'',
           ''search/issues?q=author:la55u+type:pr&sort=created&order=desc&per_page=1'',
           ''search/issues?q=author:la55u+type:pr+is:merged'',
           ''search/issues?q=commenter:la55u'',
           ''users/la55u''] w"
  using assms unfolding fetchAll2_def fetchAll2_handler
  apply (elim andThen_InrE)
  apply (clarsimp simp: fetchData_Inr firstItem_Inr username_def eval_nat_numeral)
  done

lemma commitsLoop_Inr:
  assumes "commitsLoop e rs acc w = (Inr tot, w')"
  shows "\<exists>ls. length ls = length rs
    \<and> (\<forall>i<length rs.
          fetchedBody (net_commits e (length (requests w) + i)
            (requestFor (accessToken e) (commitsPath (rs ! i)))) = Some (ls ! i))
    \<and> tot = acc + sum_list (map (\<lambda>l. int (length l)) ls)
    \<and> w' = sentAll (accessToken e) (map commitsPath rs) w"
  using assms
proof (induction rs arbitrary: acc w)
  case Nil
  then show ?case by simp
next
  case (Cons r rs)
  from Cons.prems obtain l w1 where
    f: "fetchData (accessToken e) (net_commits e) (commitsPath r) w = (Inr l, w1)"
    and k: "commitsLoop e rs (acc + int (length l)) w1 = (Inr tot, w')"
    by (auto elim: andThen_InrE)
  from f have b: "fetchedBody (net_commits e (length (requests w))
      (requestFor (accessToken e) (commitsPath r))) = Some l"
    and w1: "w1 = sent (accessToken e) (commitsPath r) w"
    by (simp_all add: fetchData_Inr)
  from Cons.IH [OF k] obtain ls where
    len: "length ls = length rs"
    and each: "\<forall>i<length rs.
          fetchedBody (net_commits e (length (requests w1) + i)
            (requestFor (accessToken e) (commitsPath (rs ! i)))) = Some (ls ! i)"
    and toteq: "tot = acc + int (length l) + sum_list (map (\<lambda>l. int (length l)) ls)"
    and w': "w' = sentAll (accessToken e) (map commitsPath rs) w1"
    by blast
  have "\<forall>i<length (r # rs).
          fetchedBody (net_commits e (length (requests w) + i)
            (requestFor (accessToken e) (commitsPath ((r # rs) ! i)))) = Some ((l # ls) ! i)"
  proof (intro allI impI)
    fix i assume "i < length (r # rs)"
    then show "fetchedBody (net_commits e (length (requests w) + i)
            (requestFor (accessToken e) (commitsPath ((r # rs) ! i)))) = Some ((l # ls) ! i)"
      using b each by (cases i) (simp_all add: w1)
  qed
  then show ?case
    using len toteq w' by (intro exI [of _ "l # ls"]) (simp add: w1)
qed

lemma fetchAll1_handler:
  "tryCatch m (\<lambda>error. andThen (console_error label error) (\<lambda>_. ret None)) w = (Inr (Some s), w')
     \<longleftrightarrow> m w = (Inr (Some s), w')"
  by (auto simp: tryCatch_def andThen_def console_error_def split: prod.splits sum.splits)

lemma fetchAll1_success:
  assumes "fetchAll1 e w = (Inr (Some s), w')"
  shows "\<exists>repos ls issues prs merged comments u.
      fetchedBody (net_repos e (length (requests w))
        (requestFor (accessToken e) ''users/la55u/repos?type=all&per_page=100'')) = Some repos
    \<and> length ls = length repos
    \<and> (\<forall>i<length repos.
          fetchedBody (net_commits e (length (requests w) + 1 + i)
            (requestFor (accessToken e) (commitsPath (repos ! i)))) = Some (ls ! i))
    \<and> fetchedBody (net_search e (length (requests w) + 1 + length repos)
        (requestFor (accessToken e) ''search/issues?q=author:la55u+type:issue'')) = Some issues
    \<and> fetchedBody (net_search e (length (requests w) + 2 + length repos)
        (requestFor (accessToken e)
          ''search/issues?q=author:la55u+type:pr&sort=created&order=asc'')) = Some prs
    \<and> items prs \<noteq> []
    \<and> fetchedBody (net_search e (length (requests w) + 3 + length repos)
        (requestFor (accessToken e) ''search/issues?q=author:la55u+type:pr+is:merged'')) = Some merged
    \<and> fetchedBody (net_search e (length (requests w) + 4 + length repos)
        (requestFor (accessToken e) ''search/issues?q=commenter:la55u'')) = Some comments
    \<and> fetchedBody (net_user e (length (requests w) + 5 + length repos)
        (requestFor (accessToken e) ''user'')) = Some u
    \<and> normalizeDate (hostParse e) (user.created_at u) = Inr (stats1.registeredDate s)
    \<and> normalizeDate (hostParse e) (item.created_at (hd (items prs))) = Inr (firstPullRequestDate s)
    \<and> stats1.issuesOpened s = total_count issues
    \<and> pullRequestsOpened s = total_count prs
    \<and> pullRequestsMerged s = total_count merged
    \<and> stats1.commentsOnIssues s = total_count comments
    \<and> stats1.publicRepoCount s = public_repos u
    \<and> stats1.totalStars s = sumStars1 repos
    \<and> totalCommits s = sum_list (map (\<lambda>l. int (length l)) ls)
    \<and> stats1.sponsoredAccounts s = 3
    \<and> stats1.statUpdated s = isoDate (now e)
    \<and> stats1.followers s = user.followers u
    \<and> w' = sentAll (accessToken e)
          ([''users/la55u/repos?type=all&per_page=100''] @ map commitsPath repos
           @ [''search/issues?q=author:la55u+type:issue'',
              ''search/issues?q=author:la55u+type:pr&sort=created&order=asc'',
              ''search/issues?q=author:la55u+type:pr+is:merged'',
              ''search/issues?q=commenter:la55u'',
              ''user'']) w"
  using assms unfolding fetchAll1_def fetchAll1_handler
  apply (elim andThen_InrE)
  apply (clarsimp simp: fetchData_Inr firstItem_Inr username_def eval_nat_numeral)
  apply (drule commitsLoop_Inr)
  apply (clarsimp simp: ac_simps)
  apply (rule exI)
  apply (rule conjI, assumption)
  apply simp
  done

subsection \<open>The files are touched by \<open>main\<close> alone\<close>

lemma framedD: "framed m \<Longrightarrow> m w = (r, w') \<Longrightarrow> files w' = files w"
  by (auto simp: framed_def dest: spec [of _ w])

lemma framed_andThen: "framed m \<Longrightarrow> (\<And>x. framed (f x)) \<Longrightarrow> framed (andThen m f)"
  unfolding framed_def andThen_def
  by (auto split: prod.splits sum.splits) (metis snd_conv)+

lemma framed_tryCatch: "framed m \<Longrightarrow> (\<And>x. framed (h x)) \<Longrightarrow> framed (tryCatch m h)"
  unfolding framed_def tryCatch_def
  by (auto split: prod.splits sum.splits) (metis snd_conv)+

lemma framed_basic:
  "framed (ret x)" "framed (throw err)" "framed (lift r)"
  "framed (console_log args)" "framed (console_error label err)"
  "framed (readFileSync path)" "framed (fetchData tok net path)"
  by (simp_all add: framed_def console_log_def console_error_def readFileSync_def
      split: option.splits)

lemma framed_commitsLoop: "framed (commitsLoop e rs acc)"
  by (induction rs arbitrary: acc) (simp_all add: framed_basic framed_andThen)

lemmas framed_intros =
  framed_andThen framed_tryCatch framed_basic framed_commitsLoop

lemma framed_fetchAll1: "framed (fetchAll1 e)"
  unfolding fetchAll1_def by (intro framed_intros)

lemma framed_fetchAll2: "framed (fetchAll2 e)"
  unfolding fetchAll2_def by (intro framed_intros)

lemma framed_generateReadme: "framed (generateReadme h path d)"
  unfolding generateReadme_def loadTemplate_def by (intro framed_intros)

subsection \<open>\<open>generateReadme\<close> and \<open>main\<close>\<close>

lemma generateReadme_eq:
  "generateReadme h path d w =
     (case files w path of
        None \<Rightarrow>
          (Inl (ENOENT path),
           w\<lparr>console := console w @ [LogError ''Error loading template:'' (ENOENT path),
                LogError ''Error generating README content:'' (ENOENT path)]\<rparr>)
      | Some t \<Rightarrow>
          (case h t d of
             Inl err \<Rightarrow>
               (Inl err, w\<lparr>console := console w @ [LogError ''Error generating README content:'' err]\<rparr>)
           | Inr doc \<Rightarrow> (Inr doc, w)))"
  by (simp add: generateReadme_def loadTemplate_def tryCatch_def andThen_def readFileSync_def
      console_error_def split: option.splits sum.splits)

lemma main2_files:
  "files (snd (main2 h e w)) =
     (case fst (fetchAll2 e w) of
        Inl err \<Rightarrow> files w
      | Inr s \<Rightarrow>
          (case files w ''README.md.hbs'' of
             None \<Rightarrow> files w
           | Some t \<Rightarrow>
               (case h t s of
                  Inl err \<Rightarrow> files w
                | Inr doc \<Rightarrow> (files w)(''README.md'' \<mapsto> doc))))"
proof -
  obtain r w1 where f: "fetchAll2 e w = (r, w1)"
    by (cases "fetchAll2 e w")
  have fw: "files w1 = files w"
    using framed_fetchAll2 f by (rule framedD)
  show ?thesis
    by (simp add: main2_def tryCatch_def andThen_def f fw generateReadme_eq console_error_def
        console_log_def writeFileSync_def split: sum.splits option.splits)
qed

lemma main2_logs_failure:
  assumes "fst (fetchAll2 e w) = Inl err"
  shows "console (snd (main2 h e w))
    = console (snd (fetchAll2 e w)) @ [LogError ''Error updating README file:'' err]"
proof -
  obtain w1 where f: "fetchAll2 e w = (Inl err, w1)"
    using assms by (cases "fetchAll2 e w") simp
  show ?thesis
    by (simp add: main2_def tryCatch_def andThen_def f console_error_def)
qed

lemma fetchAll2_failure:
  assumes "fetchAll2 e w = (Inl err, w')"
  shows "\<exists>c. err = Rethrown c \<and> cause err = Some c
    \<and> last (console w') = LogError ''Error fetching data:'' c"
  using assms
  by (auto simp: fetchAll2_def tryCatch_def andThen_def console_error_def split: prod.splits sum.splits)

lemma fetchAll1_returns: "\<exists>r. fst (fetchAll1 e w) = Inr r"
  by (auto simp: fetchAll1_def tryCatch_def andThen_def [of "console_error _ _"] console_error_def
      split: prod.splits sum.splits)


subsection \<open>The form of a normalised date\<close>

lemma monthOfYearDay_next:
  assumes "leap = 0 \<or> leap = 1" and "0 \<le> dy" and "dy < 365 + leap"
  shows "dy < monthStart leap (monthOfYearDay leap dy + 1)"
  using assms by (auto simp: monthOfYearDay_def monthStart_def)

lemma DateFromTime_in_month:
  "DateFromTime t \<le> DaysInMonth (YearFromTime t) (MonthFromTime t + 1)"
  using monthOfYearDay_next [OF InLeapYear_cases, of "DayWithinYear t" "YearFromTime t"]
    DayWithinYear_bounds [of t]
  by (simp add: DateFromTime_def MonthFromTime_def DaysInMonth_def)

lemma isDigit_sign: "\<not> isDigit CHR ''+''" "\<not> isDigit CHR ''-''"
  by (simp_all add: isDigit_def)

lemma isoDateForm_isoDate:
  "isoDateForm (isoDate t) \<longleftrightarrow> 0 \<le> YearFromTime t \<and> YearFromTime t \<le> 9999"
proof
  assume f: "isoDateForm (isoDate t)"
  show "0 \<le> YearFromTime t \<and> YearFromTime t \<le> 9999"
  proof (rule ccontr)
    assume "\<not> (0 \<le> YearFromTime t \<and> YearFromTime t \<le> 9999)"
    then have "hd (isoDate t) = CHR ''+'' \<or> hd (isoDate t) = CHR ''-''"
      by (auto simp: isoDate_def isoString_def dateString_def yearString_def)
    moreover have "isDigit (hd (isoDate t))"
      using f by (cases "isoDate t") (auto simp: isoDateForm_def)
    ultimately show False using isDigit_sign by auto
  qed
next
  assume "0 \<le> YearFromTime t \<and> YearFromTime t \<le> 9999"
  then show "isoDateForm (isoDate t)"
    by (simp add: isoDate_def take10_isoString isoDateForm_dateString)
qed

lemma normalizeDate_Inr:
  "normalizeDate h x = Inr s \<longleftrightarrow> (\<exists>t. Date_parse h x = Some t \<and> s = isoDate t)"
  by (auto simp: normalizeDate_def toISOString_def isoDate_def split: option.splits)

lemma isoDate_again:
  assumes "0 \<le> YearFromTime t" "YearFromTime t \<le> 9999"
  shows "normalizeDate h (isoDate t) = Inr (isoDate t)"
proof -
  have "isoDate t = dateString (YearFromTime t) (MonthFromTime t + 1) (DateFromTime t)"
    using assms by (simp add: isoDate_def take10_isoString)
  moreover have "normalizeDate h (dateString (YearFromTime t) (MonthFromTime t + 1) (DateFromTime t))
      = Inr (dateString (YearFromTime t) (MonthFromTime t + 1) (DateFromTime t))"
    using assms MonthFromTime_range [of t] DateFromTime_range [of t] DateFromTime_in_month [of t]
    by (intro normalizeDate_dateString) simp_all
  ultimately show ?thesis by simp
qed


subsection \<open>Sums of stars, and pairs\<close>

lemma dropBits_small: "n < 9007199254740992 \<Longrightarrow> dropBits n = 0"
  by (subst dropBits.simps) simp

lemma dropBits_2_53: "dropBits 9007199254740992 = 1"
  by (subst dropBits.simps) (simp add: dropBits_small)

lemma roundToDouble_exact: "exactInt x \<Longrightarrow> roundToDouble x = x"
proof (cases "\<bar>x\<bar> = 9007199254740992")
  case True
  then have "x = 9007199254740992 \<or> x = - 9007199254740992" by linarith
  then show ?thesis
    by (auto simp: roundToDouble_def dropBits_2_53 Let_def)
next
  case False
  assume "exactInt x"
  with False have "\<bar>x\<bar> < 9007199254740992" by (simp add: exactInt_def)
  then show ?thesis
    by (simp add: roundToDouble_def dropBits_small Let_def)
qed

lemma hugeValue_large: "9007199254740992 < hugeValue"
  by (simp add: hugeValue_def)

lemma overflow_small: "exactInt x \<Longrightarrow> overflow x = Finite x"
  using hugeValue_large by (simp add: overflow_def exactInt_def) linarith

lemma jsAdd_exact: "exactInt (x + b) \<Longrightarrow> jsAdd (Finite x) b = Finite (x + b)"
  by (simp add: jsAdd_def roundToDouble_exact overflow_small)

lemma foldl_jsAdd_exact:
  "list_all exactInt (runningTotals acc xs)
     \<Longrightarrow> foldl jsAdd (Finite acc) xs = Finite (acc + sum_list xs)"
  by (induction xs arbitrary: acc) (simp_all add: jsAdd_exact add.assoc)

lemma sumStars1_fold: "sumStars1 rs = foldl jsAdd (Finite 0) (map stargazers_count rs)"
  by (simp add: sumStars1_def foldl_map)

lemma foldl_unless_private:
  "foldl (\<lambda>a r. if \<not> isPrivate r then jsAdd a (stargazers_count r) else a) acc rs
     = foldl jsAdd acc (map stargazers_count (filter (\<lambda>r. \<not> isPrivate r) rs))"
  by (induction rs arbitrary: acc) simp_all

lemma sumStars2_fold:
  "sumStars2 rs
     = foldl jsAdd (Finite 0) (map stargazers_count (filter (\<lambda>r. \<not> isPrivate r) rs))"
  by (simp add: sumStars2_def foldl_unless_private)

lemma demo_stars: "sumStars1 demoRepos = Finite 6" "sumStars2 demoRepos = Finite 4"
  by (simp_all add: sumStars1_def sumStars2_def demoRepos_def jsAdd_exact exactInt_def)

lemma fetchAll1_pair:
  "fst (fetchAll1 e w) = Inr (Some s) \<Longrightarrow> fetchAll1 e w = (Inr (Some s), snd (fetchAll1 e w))"
  by (cases "fetchAll1 e w") simp

lemma fetchAll2_pair:
  "fst (fetchAll2 e w) = Inr s \<Longrightarrow> fetchAll2 e w = (Inr s, snd (fetchAll2 e w))"
  by (cases "fetchAll2 e w") simp

lemma demo_bodies:
  "fetchedBody (net_repos demoEnv n r) = Some demoRepos"
  "fetchedBody (net_search demoEnv n r)
     = Some (if url r = descUrl then demoSearchDesc else demoSearch)"
  "fetchedBody (net_user demoEnv n r) = Some demoUser"
  "fetchedBody (net_commits demoEnv n r) = Some (replicate n \<lparr>sha = ''c''\<rparr>)"
  by (simp_all add: demoEnv_def fetchedBody_def ok_def)


text \<open>
  Further variations: the example at the first instant of the year 10000, with no
  network (the first request of the run is rejected), and with searches that match
  nothing. The template of the example has no placeholder: an engine that returns the
  template as the document renders it as any engine does.
\<close>

definition lateEnv :: env where
  "lateEnv = demoEnv\<lparr>now := 253402300800000\<rparr>"

definition offlineEnv :: env where
  "offlineEnv = demoEnv\<lparr>net_repos := (\<lambda>n r. Rejected ''fetch failed'')\<rparr>"

definition noPullsEnv :: env where
  "noPullsEnv =
     demoEnv\<lparr>net_search := (\<lambda>n r. Response 200 ''OK'' (Body \<lparr>total_count = 0, items = []\<rparr>))\<rparr>"

definition plainEngine :: "string \<Rightarrow> 'd \<Rightarrow> err + string" where
  "plainEngine template data = Inr template"

subsection \<open>The example run, evaluated\<close>

lemma demo_dates:
  "normalizeDate (\<lambda>s. None) ''2010-05-04T03:02:01Z'' = Inr ''2010-05-04''"
  "normalizeDate (\<lambda>s. None) ''2011-01-26T19:01:12Z'' = Inr ''2011-01-26''"
  "normalizeDate (\<lambda>s. None) ''2012-02-03T04:05:06Z'' = Inr ''2012-02-03''"
  "isoDate 1700000000000 = ''2023-11-14''"
  by code_simp+

lemmas demo_defs =
  demoEnv_def world0_def demoRepos_def demoSearch_def demoSearchDesc_def demoUser_def descUrl_def

lemma demo_fetchAll2: "fst (fetchAll2 demoEnv world0) = Inr demoStats2"
  by (simp add: fetchAll2_def tryCatch_def andThen_def fetchData_eq demo_defs demoStats2_def
      firstItem_def demo_dates ok_def username_def requestFor_def
      demo_stars [unfolded demoRepos_def])

lemma demo_fetchAll1: "fst (fetchAll1 demoEnv world0) = Inr (Some demoStats1)"
  by (simp add: fetchAll1_def tryCatch_def andThen_def fetchData_eq demo_defs demoStats1_def
      firstItem_def demo_dates ok_def sent_def username_def requestFor_def
      commitsPath_def demo_stars [unfolded demoRepos_def])

subsection \<open>The variations of the example, and a listing that fails\<close>

lemma dropBits_next: "dropBits 9007199254740993 = 1"
  by (subst dropBits.simps) (simp add: dropBits_small)

lemma roundToDouble_next: "roundToDouble 9007199254740993 = 9007199254740992"
  by (simp add: roundToDouble_def dropBits_next Let_def)

lemma star_sum1: "sumStars1 starRepos = Finite 9007199254740992"
  unfolding sumStars1_fold starRepos_def
  by (simp add: jsAdd_def roundToDouble_exact roundToDouble_next overflow_small exactInt_def)

lemma star_sum2: "sumStars2 starRepos = Finite 9007199254740992"
  unfolding sumStars2_fold starRepos_def
  by (simp add: jsAdd_def roundToDouble_exact roundToDouble_next overflow_small exactInt_def)

lemma star_fetchAll2:
  "fst (fetchAll2 starEnv world0) = Inr (demoStats2\<lparr>stats2.totalStars := Finite 9007199254740992\<rparr>)"
  by (simp add: fetchAll2_def tryCatch_def andThen_def fetchData_eq starEnv_def demo_defs
      demoStats2_def firstItem_def demo_dates ok_def username_def requestFor_def
      star_sum2)


lemma fetchData_Inl:
  "fetchedBody (net (length (requests w)) (requestFor tok path)) = None
     \<Longrightarrow> \<exists>c. fetchData tok net path w = (Inl (FetchError path c), sent tok path w)"
  by (auto simp: fetchData_eq fetchedBody_def split: response.splits body.splits if_splits)

lemma commitsLoop_stops:
  assumes "k < length rs"
    and "\<forall>i<k. fetchedBody (net_commits e (length (requests w) + i)
            (requestFor (accessToken e) (commitsPath (rs ! i)))) \<noteq> None"
    and "fetchedBody (net_commits e (length (requests w) + k)
            (requestFor (accessToken e) (commitsPath (rs ! k)))) = None"
  shows "\<exists>c. commitsLoop e rs acc w
    = (Inl (FetchError (commitsPath (rs ! k)) c),
       sentAll (accessToken e) (map commitsPath (take (Suc k) rs)) w)"
  using assms
proof (induction rs arbitrary: k acc w)
  case Nil
  then show ?case by simp
next
  case (Cons r rs)
  show ?case
  proof (cases k)
    case 0
    with Cons.prems(3) obtain c where
      "fetchData (accessToken e) (net_commits e) (commitsPath r) w
        = (Inl (FetchError (commitsPath r) c), sent (accessToken e) (commitsPath r) w)"
      using fetchData_Inl [of "net_commits e" w "accessToken e" "commitsPath r"] by auto
    then show ?thesis
      using 0 by (auto simp: andThen_fail)
  next
    case (Suc j)
    from Cons.prems(2) Suc have "fetchedBody (net_commits e (length (requests w))
            (requestFor (accessToken e) (commitsPath r))) \<noteq> None"
      by (auto dest: spec [of _ 0])
    then obtain l where l: "fetchedBody (net_commits e (length (requests w))
            (requestFor (accessToken e) (commitsPath r))) = Some l"
      by auto
    let ?w1 = "sent (accessToken e) (commitsPath r) w"
    have f: "fetchData (accessToken e) (net_commits e) (commitsPath r) w = (Inr l, ?w1)"
      using l by (simp add: fetchData_Inr)
    have a: "j < length rs" using Cons.prems(1) Suc by simp
    have b: "\<forall>i<j. fetchedBody (net_commits e (length (requests ?w1) + i)
            (requestFor (accessToken e) (commitsPath (rs ! i)))) \<noteq> None"
    proof (intro allI impI)
      fix i assume "i < j"
      then have "Suc i < k" using Suc by simp
      with Cons.prems(2) have "fetchedBody (net_commits e (length (requests w) + Suc i)
            (requestFor (accessToken e) (commitsPath ((r # rs) ! Suc i)))) \<noteq> None"
        by blast
      then show "fetchedBody (net_commits e (length (requests ?w1) + i)
            (requestFor (accessToken e) (commitsPath (rs ! i)))) \<noteq> None"
        by simp
    qed
    have c: "fetchedBody (net_commits e (length (requests ?w1) + j)
            (requestFor (accessToken e) (commitsPath (rs ! j)))) = None"
      using Cons.prems(3) Suc by simp
    from Cons.IH [OF a b c, of "acc + int (length l)"] show ?thesis
      using Suc by (simp add: andThen_def f)
  qed
qed

lemma fetchAll1_stops:
  assumes r: "fetchedBody (net_repos e (length (requests w))
        (requestFor (accessToken e) ''users/la55u/repos?type=all&per_page=100'')) = Some repos"
    and k: "k < length repos"
    and before: "\<forall>i<k. fetchedBody (net_commits e (length (requests w) + 1 + i)
            (requestFor (accessToken e) (commitsPath (repos ! i)))) \<noteq> None"
    and failing: "fetchedBody (net_commits e (length (requests w) + 1 + k)
            (requestFor (accessToken e) (commitsPath (repos ! k)))) = None"
  shows "fst (fetchAll1 e w) = Inr None
    \<and> requests (snd (fetchAll1 e w))
        = requests w @ map (requestFor (accessToken e))
            ([''users/la55u/repos?type=all&per_page=100''] @ map commitsPath (take (Suc k) repos))"
proof -
  let ?w1 = "sent (accessToken e) ''users/la55u/repos?type=all&per_page=100'' w"
  have f: "fetchData (accessToken e) (net_repos e)
      ''users/la55u/repos?type=all&per_page=100'' w = (Inr repos, ?w1)"
    using r by (simp add: fetchData_Inr)
  have b: "\<forall>i<k. fetchedBody (net_commits e (length (requests ?w1) + i)
            (requestFor (accessToken e) (commitsPath (repos ! i)))) \<noteq> None"
    using before by simp
  have c: "fetchedBody (net_commits e (length (requests ?w1) + k)
            (requestFor (accessToken e) (commitsPath (repos ! k)))) = None"
    using failing by simp
  from commitsLoop_stops [OF k b c, of 0] obtain c where
    l: "commitsLoop e repos 0 ?w1
      = (Inl (FetchError (commitsPath (repos ! k)) c),
         sentAll (accessToken e) (map commitsPath (take (Suc k) repos)) ?w1)"
    by blast
  show ?thesis
    unfolding fetchAll1_def
    by (simp add: tryCatch_def andThen_def username_def f l console_error_def)
qed


subsection \<open>The clock\<close>

lemma mapResult_andThen: "mapResult g (andThen m f) = andThen m (\<lambda>x. mapResult g (f x))"
  by (rule ext) (simp add: mapResult_def andThen_def split: prod.splits sum.splits)

lemma mapResult_tryCatch:
  "mapResult g (tryCatch m h) = tryCatch (mapResult g m) (\<lambda>err. mapResult g (h err))"
  by (rule ext) (simp add: mapResult_def tryCatch_def split: prod.splits sum.splits)

lemma mapResult_ret: "mapResult g (ret x) = ret (g x)"
  by (rule ext) (simp add: mapResult_def)

lemma mapResult_throw: "mapResult g (throw err) = throw err"
  by (rule ext) (simp add: mapResult_def)

lemmas mapResult_simps = mapResult_andThen mapResult_tryCatch mapResult_ret mapResult_throw

lemma mapResult_eq: "mapResult g m w = (map_sum id g (fst (m w)), snd (m w))"
  by (simp add: mapResult_def split: prod.splits sum.splits)

lemma fetchAll2_clock:
  "fetchAll2 (e\<lparr>now := t\<rparr>) = mapResult (\<lambda>s. s\<lparr>stats2.statUpdated := isoDate t\<rparr>) (fetchAll2 e)"
  by (simp add: fetchAll2_def mapResult_simps)









subsection \<open>The year 10000\<close>

lemma isoDate_dateString:
  "fourDigitYear t \<Longrightarrow>
     isoDate t = dateString (YearFromTime t) (MonthFromTime t + 1) (DateFromTime t)"
  by (simp add: fourDigitYear_def isoDate_def take10_isoString)

lemma digitChar_01: "digitChar 0 = CHR ''0''" "digitChar (Suc 0) = CHR ''1''"
  by code_simp+

lemma pad6_10000: "pad 6 10000 = ''010000''"
proof -
  have six: "(6::nat) = Suc (Suc (Suc (Suc (Suc (Suc 0)))))" by simp
  show ?thesis unfolding six by (simp add: digitChar_01)
qed

lemma pad2_1: "pad 2 (Suc 0) = ''01''"
proof -
  have two: "(2::nat) = Suc (Suc 0)" by simp
  show ?thesis unfolding two by (simp add: digitChar_01)
qed

lemma demo_late: "isoDate 253402300800000 = ''+010000-01''"
proof -
  have day: "Day 253402300800000 = 2932897"
    by (simp add: Day_def msPerDay_def)
  have yr: "YearFromTime 253402300800000 = 10000"
    unfolding YearFromTime_def day
    by (rule YearFromDay_unique) (simp_all add: DayFromYear_def)
  have dwy: "DayWithinYear 253402300800000 = 0"
    unfolding DayWithinYear_def yr day by (simp add: DayFromYear_10000)
  have mo: "MonthFromTime 253402300800000 = 0"
    unfolding MonthFromTime_def dwy by (simp add: monthOfYearDay_def)
  show ?thesis
    unfolding isoDate_def isoString_def dateString_def yr mo
    by (simp add: yearString_def pad6_10000 pad2_1)
qed

lemma demo_now:
  "YearFromTime 1700000000000 = 2023"
  "MonthFromTime 1700000000000 + 1 = 11"
  "DateFromTime 1700000000000 = 14"
  by code_simp+

subsection \<open>Runs that fail\<close>

lemma offline_fetchAll1:
  "fetchAll1 offlineEnv world0
     = (Inr None,
        world0\<lparr>console :=
            [Log [''Fetching: '', ''users/la55u/repos?type=all&per_page=100''],
             LogError ''Something went wrong:''
               (FetchError ''users/la55u/repos?type=all&per_page=100''
                  (NetworkError ''fetch failed''))],
          requests := [requestFor (Some ''token'') ''users/la55u/repos?type=all&per_page=100'']\<rparr>)"
  by (simp add: fetchAll1_def tryCatch_def andThen_def fetchData_eq offlineEnv_def demoEnv_def
      world0_def username_def sent_def console_error_def)

lemma offline_fetchAll2:
  "fetchAll2 offlineEnv world0
     = (Inl (Rethrown (FetchError ''users/la55u/repos?type=public&per_page=100''
                  (NetworkError ''fetch failed''))),
        world0\<lparr>console :=
            [Log [''Fetching: '', ''users/la55u/repos?type=public&per_page=100''],
             LogError ''Error fetching data:''
               (FetchError ''users/la55u/repos?type=public&per_page=100''
                  (NetworkError ''fetch failed''))],
          requests := [requestFor (Some ''token'') ''users/la55u/repos?type=public&per_page=100'']\<rparr>)"
  by (simp add: fetchAll2_def tryCatch_def andThen_def fetchData_eq offlineEnv_def demoEnv_def
      world0_def username_def sent_def console_error_def)

lemma offline_main1:
  "main1 plainEngine offlineEnv world0
     = (Inr (),
        world0\<lparr>console :=
            [Log [''Fetching: '', ''users/la55u/repos?type=all&per_page=100''],
             LogError ''Something went wrong:''
               (FetchError ''users/la55u/repos?type=all&per_page=100''
                  (NetworkError ''fetch failed'')),
             Log [''README file updated successfully.'']],
          requests := [requestFor (Some ''token'') ''users/la55u/repos?type=all&per_page=100''],
          files := [''README.md.hbs'' \<mapsto> ''# Stats'', ''README.md'' \<mapsto> ''# Stats'']\<rparr>)"
  by (simp add: main1_def tryCatch_def andThen_def offline_fetchAll1)
    (simp add: andThen_def generateReadme_eq plainEngine_def writeFileSync_def console_log_def
      world0_def)

lemma offline_main2:
  "main2 plainEngine offlineEnv world0
     = (Inr (),
        world0\<lparr>console :=
            [Log [''Fetching: '', ''users/la55u/repos?type=public&per_page=100''],
             LogError ''Error fetching data:''
               (FetchError ''users/la55u/repos?type=public&per_page=100''
                  (NetworkError ''fetch failed'')),
             LogError ''Error updating README file:''
               (Rethrown (FetchError ''users/la55u/repos?type=public&per_page=100''
                  (NetworkError ''fetch failed'')))],
          requests := [requestFor (Some ''token'') ''users/la55u/repos?type=public&per_page=100'']\<rparr>)"
  by (simp add: main2_def tryCatch_def andThen_def offline_fetchAll2)
    (simp add: console_error_def world0_def)

lemma noPulls_fetchAll1:
  "fst (fetchAll1 noPullsEnv world0) = Inr None
   \<and> console (snd (fetchAll1 noPullsEnv world0))
     = [Log [''Fetching: '', ''users/la55u/repos?type=all&per_page=100''],
        Log [''Fetching: '', ''repos/la55u/alpha/commits''],
        Log [''Fetching: '', ''repos/la55u/beta/commits''],
        Log [''Fetching: '', ''repos/la55u/gamma/commits''],
        Log [''Fetching: '', ''search/issues?q=author:la55u+type:issue''],
        Log [''Fetching: '', ''search/issues?q=author:la55u+type:pr&sort=created&order=asc''],
        LogError ''Something went wrong:'' (TypeError ''created_at'')]
   \<and> files (snd (fetchAll1 noPullsEnv world0)) = files world0"
  by (simp add: fetchAll1_def tryCatch_def andThen_def fetchData_eq noPullsEnv_def demoEnv_def
      demoRepos_def world0_def username_def sent_def console_error_def firstItem_def ok_def
      commitsPath_def requestFor_def)

lemma noPulls_fetchAll2:
  "fst (fetchAll2 noPullsEnv world0) = Inl (Rethrown (TypeError ''created_at''))
   \<and> console (snd (fetchAll2 noPullsEnv world0))
     = [Log [''Fetching: '', ''users/la55u/repos?type=public&per_page=100''],
        Log [''Fetching: '', ''search/issues?q=author:la55u+type:issue''],
        Log [''Fetching: '',
          ''search/issues?q=author:la55u+type:pr&sort=created&order=asc&per_page=1''],
        LogError ''Error fetching data:'' (TypeError ''created_at'')]"
  by (simp add: fetchAll2_def tryCatch_def andThen_def fetchData_eq noPullsEnv_def demoEnv_def
      demoRepos_def world0_def username_def sent_def console_error_def firstItem_def ok_def
      requestFor_def)

lemma main1_after_None:
  assumes "fst (fetchAll1 e w) = Inr None" and "files w ''README.md.hbs'' = Some t"
  shows "fst (main1 plainEngine e w) = Inr ()
    \<and> console (snd (main1 plainEngine e w))
        = console (snd (fetchAll1 e w)) @ [Log [''README file updated successfully.'']]
    \<and> files (snd (main1 plainEngine e w)) = (files w)(''README.md'' \<mapsto> t)"
proof -
  obtain w1 where f: "fetchAll1 e w = (Inr None, w1)"
    using assms(1) by (cases "fetchAll1 e w") simp
  have fw: "files w1 = files w"
    using framed_fetchAll1 f by (rule framedD)
  show ?thesis
    using assms(2)
    by (simp add: main1_def tryCatch_def andThen_def f fw generateReadme_eq plainEngine_def
        writeFileSync_def console_log_def)
qed

section \<open>The claims\<close>

text \<open>
  C8. Date normalisation is idempotent. A normalised calendar-date string is read in two
  ways, and the property holds for both: (1) the string \<open>YYYY-MM-DD\<close> of any calendar date
  of the years 0000 to 9999 (a month from 1 to 12, a day that exists in that month)
  normalises to itself; (2) whenever the normalisation of any string \<open>x\<close> returns a
  string of the form \<open>YYYY-MM-DD\<close>, normalising that result again returns it unchanged.
  Both hold whatever the engine does with the strings the standard leaves open.
\<close>

theorem normalizeDate_idempotent:
  "(0 \<le> y \<and> y \<le> 9999 \<and> 1 \<le> m \<and> m \<le> 12 \<and> 1 \<le> d \<and> d \<le> DaysInMonth y m
      \<longrightarrow> normalizeDate h (dateString y m d) = Inr (dateString y m d))
   \<and> (normalizeDate h x = Inr s \<and> isoDateForm s \<longrightarrow> normalizeDate h s = Inr s)"
proof (intro conjI impI)
  assume "0 \<le> y \<and> y \<le> 9999 \<and> 1 \<le> m \<and> m \<le> 12 \<and> 1 \<le> d \<and> d \<le> DaysInMonth y m"
  then show "normalizeDate h (dateString y m d) = Inr (dateString y m d)"
    by (intro normalizeDate_dateString) simp_all
next
  assume a: "normalizeDate h x = Inr s \<and> isoDateForm s"
  then obtain t where t: "s = isoDate t"
    by (auto simp: normalizeDate_Inr)
  with a have "0 \<le> YearFromTime t \<and> YearFromTime t \<le> 9999"
    by (simp add: isoDateForm_isoDate)
  then show "normalizeDate h s = Inr s"
    unfolding t by (intro isoDate_again) simp_all
qed

theorem normalizeDate_idempotent_witness:
  "normalizeDate (\<lambda>s. None) ''2024-02-29'' = Inr ''2024-02-29''
   \<and> normalizeDate (\<lambda>s. None) ''2011-01-26T19:01:12Z'' = Inr ''2011-01-26''
   \<and> isoDateForm ''2011-01-26''
   \<and> normalizeDate (\<lambda>s. None) ''2011-01-26'' = Inr ''2011-01-26''"
proof -
  have a: "(0::int) \<le> 2024 \<and> (2024::int) \<le> 9999 \<and> (1::int) \<le> 2 \<and> (2::int) \<le> 12
      \<and> (1::int) \<le> 29 \<and> 29 \<le> DaysInMonth 2024 2"
    by (simp add: DaysInMonth_def monthStart_def InLeapYear_def DaysInYear_def)
  have b: "dateString 2024 2 29 = ''2024-02-29''"
    by code_simp
  have c: "normalizeDate (\<lambda>s. None) ''2011-01-26T19:01:12Z'' = Inr ''2011-01-26''"
    by code_simp
  have d: "isoDateForm ''2011-01-26''"
    by code_simp
  show ?thesis
    using normalizeDate_idempotent
      [of 2024 2 29 "\<lambda>s. None" "''2011-01-26T19:01:12Z''" "''2011-01-26''"] a b c d
    by simp
qed

text \<open>
  C6. Whenever the second variant returns a summary, the third request of the run was the
  pull-request search with \<open>sort=created&order=asc\<close> and the fourth the same search with
  \<open>order=desc\<close>; both answers list at least one item; \<open>firstPRDate\<close> and \<open>firstPRUrl\<close>
  are the normalised \<open>created_at\<close> and the \<open>html_url\<close> of the first item of the ascending
  answer, \<open>latestPRDate\<close> and \<open>latestPRUrl\<close> those of the first item of the descending
  answer. The first variant has the first date alone, from the first item of its
  ascending search. Nothing but the first item of an answer is read, so the order of
  the items is the one the query asked the server for.
\<close>

theorem pull_request_fields_from_first_item:
  "(fst (fetchAll2 e w) = Inr s2 \<longrightarrow>
      (\<exists>firstPr latestPr.
         fetchedBody (net_search e (length (requests w) + 2)
           (requestFor (accessToken e)
             ''search/issues?q=author:la55u+type:pr&sort=created&order=asc&per_page=1''))
           = Some firstPr
         \<and> fetchedBody (net_search e (length (requests w) + 3)
           (requestFor (accessToken e)
             ''search/issues?q=author:la55u+type:pr&sort=created&order=desc&per_page=1''))
           = Some latestPr
         \<and> items firstPr \<noteq> [] \<and> items latestPr \<noteq> []
         \<and> normalizeDate (hostParse e) (item.created_at (hd (items firstPr)))
             = Inr (firstPRDate s2)
         \<and> firstPRUrl s2 = html_url (hd (items firstPr))
         \<and> normalizeDate (hostParse e) (item.created_at (hd (items latestPr)))
             = Inr (latestPRDate s2)
         \<and> latestPRUrl s2 = html_url (hd (items latestPr))))
   \<and> (fst (fetchAll1 e w) = Inr (Some s1) \<longrightarrow>
      (\<exists>repos prs.
         fetchedBody (net_repos e (length (requests w))
           (requestFor (accessToken e) ''users/la55u/repos?type=all&per_page=100'')) = Some repos
         \<and> fetchedBody (net_search e (length (requests w) + 2 + length repos)
           (requestFor (accessToken e)
             ''search/issues?q=author:la55u+type:pr&sort=created&order=asc'')) = Some prs
         \<and> items prs \<noteq> []
         \<and> normalizeDate (hostParse e) (item.created_at (hd (items prs)))
             = Inr (firstPullRequestDate s1)))"
proof (intro conjI impI)
  assume "fst (fetchAll2 e w) = Inr s2"
  then have "fetchAll2 e w = (Inr s2, snd (fetchAll2 e w))"
    by (rule fetchAll2_pair)
  from fetchAll2_success [OF this]
  show "\<exists>firstPr latestPr.
         fetchedBody (net_search e (length (requests w) + 2)
           (requestFor (accessToken e)
             ''search/issues?q=author:la55u+type:pr&sort=created&order=asc&per_page=1''))
           = Some firstPr
         \<and> fetchedBody (net_search e (length (requests w) + 3)
           (requestFor (accessToken e)
             ''search/issues?q=author:la55u+type:pr&sort=created&order=desc&per_page=1''))
           = Some latestPr
         \<and> items firstPr \<noteq> [] \<and> items latestPr \<noteq> []
         \<and> normalizeDate (hostParse e) (item.created_at (hd (items firstPr)))
             = Inr (firstPRDate s2)
         \<and> firstPRUrl s2 = html_url (hd (items firstPr))
         \<and> normalizeDate (hostParse e) (item.created_at (hd (items latestPr)))
             = Inr (latestPRDate s2)
         \<and> latestPRUrl s2 = html_url (hd (items latestPr))"
    apply (elim exE conjE)
    apply (intro exI conjI)
           apply assumption+
    done
next
  assume "fst (fetchAll1 e w) = Inr (Some s1)"
  then have "fetchAll1 e w = (Inr (Some s1), snd (fetchAll1 e w))"
    by (rule fetchAll1_pair)
  from fetchAll1_success [OF this]
  show "\<exists>repos prs.
         fetchedBody (net_repos e (length (requests w))
           (requestFor (accessToken e) ''users/la55u/repos?type=all&per_page=100'')) = Some repos
         \<and> fetchedBody (net_search e (length (requests w) + 2 + length repos)
           (requestFor (accessToken e)
             ''search/issues?q=author:la55u+type:pr&sort=created&order=asc'')) = Some prs
         \<and> items prs \<noteq> []
         \<and> normalizeDate (hostParse e) (item.created_at (hd (items prs)))
             = Inr (firstPullRequestDate s1)"
    apply (elim exE conjE)
    apply (intro exI conjI)
       apply assumption+
    done
qed

theorem pull_request_fields_from_first_item_witness:
  "fst (fetchAll2 demoEnv world0) = Inr demoStats2
   \<and> fst (fetchAll1 demoEnv world0) = Inr (Some demoStats1)
   \<and> firstPRUrl demoStats2 = html_url (hd (items demoSearch))
   \<and> latestPRUrl demoStats2 = html_url (hd (items demoSearchDesc))
   \<and> normalizeDate (hostParse demoEnv) (item.created_at (hd (items demoSearch)))
       = Inr (firstPRDate demoStats2)
   \<and> normalizeDate (hostParse demoEnv) (item.created_at (hd (items demoSearchDesc)))
       = Inr (latestPRDate demoStats2)
   \<and> normalizeDate (hostParse demoEnv) (item.created_at (hd (items demoSearch)))
       = Inr (firstPullRequestDate demoStats1)"
  using pull_request_fields_from_first_item [of demoEnv world0 demoStats2 demoStats1]
    demo_fetchAll1 demo_fetchAll2
  by (simp add: demo_bodies requestFor_def descUrl_def) (simp add: demoStats1_def demoStats2_def)

text \<open>
  C3, as stated, fails: the script adds the star counts as doubles, and a sum beyond
  \<open>2 ^ 53\<close> is rounded. With two public repositories of 9007199254740991 and 2 stars the
  second variant returns the total 9007199254740992, and the sum is 9007199254740993.
\<close>

theorem totalStars_rounded_beyond_2_53:
  "fst (fetchAll2 starEnv world0) = Inr (demoStats2\<lparr>stats2.totalStars := Finite 9007199254740992\<rparr>)
   \<and> fetchedBody (net_repos starEnv (length (requests world0))
         (requestFor (accessToken starEnv) ''users/la55u/repos?type=public&per_page=100''))
       = Some starRepos
   \<and> sum_list (map stargazers_count (filter (\<lambda>r. \<not> isPrivate r) starRepos))
       = 9007199254740993
   \<and> stats2.totalStars (demoStats2\<lparr>stats2.totalStars := Finite 9007199254740992\<rparr>)
       \<noteq> Finite (sum_list (map stargazers_count (filter (\<lambda>r. \<not> isPrivate r) starRepos)))"
proof -
  have "fetchedBody (net_repos starEnv (length (requests world0))
         (requestFor (accessToken starEnv) ''users/la55u/repos?type=public&per_page=100''))
       = Some starRepos"
    by (simp add: starEnv_def fetchedBody_def ok_def)
  moreover have "sum_list (map stargazers_count (filter (\<lambda>r. \<not> isPrivate r) starRepos))
       = 9007199254740993"
    by (simp add: starRepos_def)
  ultimately show ?thesis
    using star_fetchAll2 by simp
qed

text \<open>
  C3, amended. Whenever \<open>fetchAll\<close> returns a summary, its \<open>totalStars\<close> is the result of
  adding, with the addition of the runtime and starting from 0, the \<open>stargazers_count\<close>
  of the repositories of the list that the first request of the run fetched, in the
  order of the list: of all of them in the first variant, of those whose \<open>private\<close> field
  is false in the second (filtered) variant. When every one of these counts and every
  total on the way (the sum of the first \<open>k\<close> counts, for each \<open>k\<close>) is at most \<open>2 ^ 53\<close> in
  magnitude, no addition rounds and \<open>totalStars\<close> is the sum of the counts.
\<close>

theorem totalStars_is_sum_of_stargazers:
  "(fst (fetchAll1 e w) = Inr (Some s1) \<longrightarrow>
      (\<exists>repos.
         fetchedBody (net_repos e (length (requests w))
           (requestFor (accessToken e) ''users/la55u/repos?type=all&per_page=100'')) = Some repos
         \<and> stats1.totalStars s1 = foldl jsAdd (Finite 0) (map stargazers_count repos)
         \<and> (list_all exactInt (map stargazers_count repos)
              \<and> list_all exactInt (runningTotals 0 (map stargazers_count repos))
            \<longrightarrow> stats1.totalStars s1 = Finite (sum_list (map stargazers_count repos)))))
   \<and> (fst (fetchAll2 e w) = Inr s2 \<longrightarrow>
      (\<exists>repos.
         fetchedBody (net_repos e (length (requests w))
           (requestFor (accessToken e) ''users/la55u/repos?type=public&per_page=100'')) = Some repos
         \<and> stats2.totalStars s2
             = foldl jsAdd (Finite 0)
                 (map stargazers_count (filter (\<lambda>r. \<not> isPrivate r) repos))
         \<and> (list_all exactInt (map stargazers_count (filter (\<lambda>r. \<not> isPrivate r) repos))
              \<and> list_all exactInt
                  (runningTotals 0 (map stargazers_count (filter (\<lambda>r. \<not> isPrivate r) repos)))
            \<longrightarrow> stats2.totalStars s2
                = Finite (sum_list
                    (map stargazers_count (filter (\<lambda>r. \<not> isPrivate r) repos))))))"
proof (intro conjI impI)
  assume "fst (fetchAll1 e w) = Inr (Some s1)"
  then have "fetchAll1 e w = (Inr (Some s1), snd (fetchAll1 e w))"
    by (rule fetchAll1_pair)
  from fetchAll1_success [OF this] obtain repos where
    b: "fetchedBody (net_repos e (length (requests w))
           (requestFor (accessToken e) ''users/la55u/repos?type=all&per_page=100'')) = Some repos"
    and t: "stats1.totalStars s1 = sumStars1 repos"
    by (elim exE conjE)
  have "list_all exactInt (map stargazers_count repos)
          \<and> list_all exactInt (runningTotals 0 (map stargazers_count repos))
        \<longrightarrow> stats1.totalStars s1 = Finite (sum_list (map stargazers_count repos))"
    using foldl_jsAdd_exact [of 0 "map stargazers_count repos"]
    by (simp add: t sumStars1_fold)
  with b t show "\<exists>repos.
         fetchedBody (net_repos e (length (requests w))
           (requestFor (accessToken e) ''users/la55u/repos?type=all&per_page=100'')) = Some repos
         \<and> stats1.totalStars s1 = foldl jsAdd (Finite 0) (map stargazers_count repos)
         \<and> (list_all exactInt (map stargazers_count repos)
              \<and> list_all exactInt (runningTotals 0 (map stargazers_count repos))
            \<longrightarrow> stats1.totalStars s1 = Finite (sum_list (map stargazers_count repos)))"
    unfolding sumStars1_fold by (intro exI [of _ repos] conjI)
next
  assume "fst (fetchAll2 e w) = Inr s2"
  then have "fetchAll2 e w = (Inr s2, snd (fetchAll2 e w))"
    by (rule fetchAll2_pair)
  from fetchAll2_success [OF this] obtain repos where
    b: "fetchedBody (net_repos e (length (requests w))
           (requestFor (accessToken e) ''users/la55u/repos?type=public&per_page=100'')) = Some repos"
    and t: "stats2.totalStars s2 = sumStars2 repos"
    by (elim exE conjE)
  have "list_all exactInt (map stargazers_count (filter (\<lambda>r. \<not> isPrivate r) repos))
          \<and> list_all exactInt
              (runningTotals 0 (map stargazers_count (filter (\<lambda>r. \<not> isPrivate r) repos)))
        \<longrightarrow> stats2.totalStars s2
            = Finite (sum_list (map stargazers_count (filter (\<lambda>r. \<not> isPrivate r) repos)))"
    using foldl_jsAdd_exact [of 0 "map stargazers_count (filter (\<lambda>r. \<not> isPrivate r) repos)"]
    by (simp add: t sumStars2_fold)
  with b t show "\<exists>repos.
         fetchedBody (net_repos e (length (requests w))
           (requestFor (accessToken e) ''users/la55u/repos?type=public&per_page=100'')) = Some repos
         \<and> stats2.totalStars s2
             = foldl jsAdd (Finite 0)
                 (map stargazers_count (filter (\<lambda>r. \<not> isPrivate r) repos))
         \<and> (list_all exactInt (map stargazers_count (filter (\<lambda>r. \<not> isPrivate r) repos))
              \<and> list_all exactInt
                  (runningTotals 0 (map stargazers_count (filter (\<lambda>r. \<not> isPrivate r) repos)))
            \<longrightarrow> stats2.totalStars s2
                = Finite (sum_list
                    (map stargazers_count (filter (\<lambda>r. \<not> isPrivate r) repos))))"
    unfolding sumStars2_fold by (intro exI [of _ repos] conjI)
qed

theorem totalStars_is_sum_of_stargazers_witness:
  "fst (fetchAll1 demoEnv world0) = Inr (Some demoStats1)
   \<and> fst (fetchAll2 demoEnv world0) = Inr demoStats2
   \<and> list_all exactInt (map stargazers_count demoRepos)
   \<and> list_all exactInt (runningTotals 0 (map stargazers_count demoRepos))
   \<and> list_all exactInt (map stargazers_count (filter (\<lambda>r. \<not> isPrivate r) demoRepos))
   \<and> list_all exactInt
        (runningTotals 0 (map stargazers_count (filter (\<lambda>r. \<not> isPrivate r) demoRepos)))
   \<and> stats1.totalStars demoStats1 = Finite (sum_list (map stargazers_count demoRepos))
   \<and> stats1.totalStars demoStats1 = Finite 6
   \<and> stats2.totalStars demoStats2
       = Finite (sum_list (map stargazers_count (filter (\<lambda>r. \<not> isPrivate r) demoRepos)))
   \<and> stats2.totalStars demoStats2 = Finite 4"
proof -
  have x: "list_all exactInt (map stargazers_count demoRepos)"
    "list_all exactInt (runningTotals 0 (map stargazers_count demoRepos))"
    "list_all exactInt (map stargazers_count (filter (\<lambda>r. \<not> isPrivate r) demoRepos))"
    "list_all exactInt
        (runningTotals 0 (map stargazers_count (filter (\<lambda>r. \<not> isPrivate r) demoRepos)))"
    by (simp_all add: demoRepos_def exactInt_def)
  have v: "stats1.totalStars demoStats1 = Finite 6" "stats2.totalStars demoStats2 = Finite 4"
    by (simp_all add: demoStats1_def demoStats2_def)
  from totalStars_is_sum_of_stargazers [of demoEnv world0 demoStats1 demoStats2]
    demo_fetchAll1 demo_fetchAll2 x
  have "stats1.totalStars demoStats1 = Finite (sum_list (map stargazers_count demoRepos))"
    and "stats2.totalStars demoStats2
       = Finite (sum_list (map stargazers_count (filter (\<lambda>r. \<not> isPrivate r) demoRepos)))"
    by (auto simp: demo_bodies)
  with x v demo_fetchAll1 demo_fetchAll2 show ?thesis
    by simp
qed

text \<open>
  C9. In the first variant (the one that counts commits), whenever \<open>fetchAll\<close> returns a
  summary there is one commit listing for each repository of the fetched list, the
  listing for the \<open>i\<close>-th repository is the answer to the request that follows the
  repository request and the \<open>i\<close> listings before it, \<open>totalCommits\<close> is the sum of the
  lengths of these listings, and the requests of the run were sent in this order: the
  repository list, the listings in the order of the list, then the five remaining
  queries. The listings are requested one after another: a listing is requested only
  after the answer to the one before it has been read. This shows where a listing
  fails: when the listings of the first \<open>k\<close> repositories are answered and the listing of
  the next one is not, the run has sent the repository request and these \<open>k + 1\<close> listing
  requests and nothing more (no request for a later repository was under way), and
  \<open>fetchAll\<close> returns no summary. The lengths added are lengths of arrays, below
  \<open>2 ^ 32\<close>; their sum is exact for every list the runtime can hold.
\<close>

theorem totalCommits_is_sum_of_listings:
  "(fst (fetchAll1 e w) = Inr (Some s) \<longrightarrow>
     (\<exists>repos ls.
        fetchedBody (net_repos e (length (requests w))
          (requestFor (accessToken e) ''users/la55u/repos?type=all&per_page=100'')) = Some repos
      \<and> length ls = length repos
      \<and> (\<forall>i<length repos.
            fetchedBody (net_commits e (length (requests w) + 1 + i)
              (requestFor (accessToken e) (commitsPath (repos ! i)))) = Some (ls ! i))
      \<and> totalCommits s = sum_list (map (\<lambda>l. int (length l)) ls)
      \<and> requests (snd (fetchAll1 e w))
          = requests w @ map (requestFor (accessToken e))
              ([''users/la55u/repos?type=all&per_page=100''] @ map commitsPath repos
               @ [''search/issues?q=author:la55u+type:issue'',
                  ''search/issues?q=author:la55u+type:pr&sort=created&order=asc'',
                  ''search/issues?q=author:la55u+type:pr+is:merged'',
                  ''search/issues?q=commenter:la55u'',
                  ''user''])))
   \<and> (fetchedBody (net_repos e (length (requests w))
          (requestFor (accessToken e) ''users/la55u/repos?type=all&per_page=100''))
          = Some failRepos
        \<and> k < length failRepos
        \<and> (\<forall>i<k. fetchedBody (net_commits e (length (requests w) + 1 + i)
              (requestFor (accessToken e) (commitsPath (failRepos ! i)))) \<noteq> None)
        \<and> fetchedBody (net_commits e (length (requests w) + 1 + k)
              (requestFor (accessToken e) (commitsPath (failRepos ! k)))) = None
      \<longrightarrow> fst (fetchAll1 e w) = Inr None
        \<and> requests (snd (fetchAll1 e w))
            = requests w @ map (requestFor (accessToken e))
                ([''users/la55u/repos?type=all&per_page=100'']
                 @ map commitsPath (take (Suc k) failRepos)))"
proof (intro conjI impI)
  assume "fst (fetchAll1 e w) = Inr (Some s)"
  then have "fetchAll1 e w = (Inr (Some s), snd (fetchAll1 e w))"
    by (rule fetchAll1_pair)
  from fetchAll1_success [OF this] show "\<exists>repos ls.
        fetchedBody (net_repos e (length (requests w))
          (requestFor (accessToken e) ''users/la55u/repos?type=all&per_page=100'')) = Some repos
      \<and> length ls = length repos
      \<and> (\<forall>i<length repos.
            fetchedBody (net_commits e (length (requests w) + 1 + i)
              (requestFor (accessToken e) (commitsPath (repos ! i)))) = Some (ls ! i))
      \<and> totalCommits s = sum_list (map (\<lambda>l. int (length l)) ls)
      \<and> requests (snd (fetchAll1 e w))
          = requests w @ map (requestFor (accessToken e))
              ([''users/la55u/repos?type=all&per_page=100''] @ map commitsPath repos
               @ [''search/issues?q=author:la55u+type:issue'',
                  ''search/issues?q=author:la55u+type:pr&sort=created&order=asc'',
                  ''search/issues?q=author:la55u+type:pr+is:merged'',
                  ''search/issues?q=commenter:la55u'',
                  ''user''])"
    apply (elim exE conjE)
    apply (intro exI conjI)
        apply assumption
       apply assumption
      apply assumption
     apply assumption
    apply simp
    done
next
  assume a: "fetchedBody (net_repos e (length (requests w))
          (requestFor (accessToken e) ''users/la55u/repos?type=all&per_page=100''))
          = Some failRepos
        \<and> k < length failRepos
        \<and> (\<forall>i<k. fetchedBody (net_commits e (length (requests w) + 1 + i)
              (requestFor (accessToken e) (commitsPath (failRepos ! i)))) \<noteq> None)
        \<and> fetchedBody (net_commits e (length (requests w) + 1 + k)
              (requestFor (accessToken e) (commitsPath (failRepos ! k)))) = None"
  then have s: "fst (fetchAll1 e w) = Inr None
    \<and> requests (snd (fetchAll1 e w))
        = requests w @ map (requestFor (accessToken e))
            ([''users/la55u/repos?type=all&per_page=100''] @ map commitsPath (take (Suc k) failRepos))"
    by (intro fetchAll1_stops) simp_all
  from s show "fst (fetchAll1 e w) = Inr None" by simp
  from s show "requests (snd (fetchAll1 e w))
            = requests w @ map (requestFor (accessToken e))
                ([''users/la55u/repos?type=all&per_page=100'']
                 @ map commitsPath (take (Suc k) failRepos))" by simp
qed

theorem totalCommits_is_sum_of_listings_witness:
  "fst (fetchAll1 demoEnv world0) = Inr (Some demoStats1)
   \<and> totalCommits demoStats1 = 6
   \<and> map url (requests (snd (fetchAll1 demoEnv world0)))
       = [''https://api.github.com/users/la55u/repos?type=all&per_page=100'',
          ''https://api.github.com/repos/la55u/alpha/commits'',
          ''https://api.github.com/repos/la55u/beta/commits'',
          ''https://api.github.com/repos/la55u/gamma/commits'',
          ''https://api.github.com/search/issues?q=author:la55u+type:issue'',
          ''https://api.github.com/search/issues?q=author:la55u+type:pr&sort=created&order=asc'',
          ''https://api.github.com/search/issues?q=author:la55u+type:pr+is:merged'',
          ''https://api.github.com/search/issues?q=commenter:la55u'',
          ''https://api.github.com/user'']
   \<and> fetchedBody (net_commits failEnv 1 (requestFor (accessToken failEnv) (commitsPath (demoRepos ! 0))))
       = Some [\<lparr>sha = ''c''\<rparr>]
   \<and> fetchedBody (net_commits failEnv 2 (requestFor (accessToken failEnv) (commitsPath (demoRepos ! 1))))
       = None
   \<and> fst (fetchAll1 failEnv world0) = Inr None
   \<and> map url (requests (snd (fetchAll1 failEnv world0)))
       = [''https://api.github.com/users/la55u/repos?type=all&per_page=100'',
          ''https://api.github.com/repos/la55u/alpha/commits'',
          ''https://api.github.com/repos/la55u/beta/commits'']"
proof -
  from totalCommits_is_sum_of_listings
    [where e = demoEnv and w = world0 and s = demoStats1 and k = 0 and failRepos = "[]"]
    demo_fetchAll1
  obtain repos ls where
    r: "fetchedBody (net_repos demoEnv (length (requests world0))
        (requestFor (accessToken demoEnv) ''users/la55u/repos?type=all&per_page=100'')) = Some repos"
    and q: "requests (snd (fetchAll1 demoEnv world0))
        = requests world0 @ map (requestFor (accessToken demoEnv))
            ([''users/la55u/repos?type=all&per_page=100''] @ map commitsPath repos
             @ [''search/issues?q=author:la55u+type:issue'',
                ''search/issues?q=author:la55u+type:pr&sort=created&order=asc'',
                ''search/issues?q=author:la55u+type:pr+is:merged'',
                ''search/issues?q=commenter:la55u'',
                ''user''])"
    by blast
  from r have "repos = demoRepos"
    by (simp add: demo_bodies)
  with q have t: "map url (requests (snd (fetchAll1 demoEnv world0)))
       = [''https://api.github.com/users/la55u/repos?type=all&per_page=100'',
          ''https://api.github.com/repos/la55u/alpha/commits'',
          ''https://api.github.com/repos/la55u/beta/commits'',
          ''https://api.github.com/repos/la55u/gamma/commits'',
          ''https://api.github.com/search/issues?q=author:la55u+type:issue'',
          ''https://api.github.com/search/issues?q=author:la55u+type:pr&sort=created&order=asc'',
          ''https://api.github.com/search/issues?q=author:la55u+type:pr+is:merged'',
          ''https://api.github.com/search/issues?q=commenter:la55u'',
          ''https://api.github.com/user'']"
    by (simp add: world0_def demoRepos_def requestFor_def commitsPath_def username_def)
  have c: "totalCommits demoStats1 = 6"
    by (simp add: demoStats1_def)
  have f0: "fetchedBody (net_repos failEnv (length (requests world0))
          (requestFor (accessToken failEnv) ''users/la55u/repos?type=all&per_page=100''))
          = Some demoRepos"
    by (simp add: failEnv_def demo_bodies)
  have f1: "fetchedBody (net_commits failEnv 1
        (requestFor (accessToken failEnv) (commitsPath (demoRepos ! 0)))) = Some [\<lparr>sha = ''c''\<rparr>]"
    by (simp add: failEnv_def fetchedBody_def ok_def)
  have f2: "fetchedBody (net_commits failEnv 2
        (requestFor (accessToken failEnv) (commitsPath (demoRepos ! 1)))) = None"
    by (simp add: failEnv_def fetchedBody_def)
  have len: "(1::nat) < length demoRepos"
    by (simp add: demoRepos_def)
  have rq0: "length (requests world0) = 0"
    by (simp add: world0_def)
  from totalCommits_is_sum_of_listings
    [where e = failEnv and w = world0 and s = demoStats1 and k = 1 and failRepos = demoRepos]
    f0 f1 f2 len
  have g: "fst (fetchAll1 failEnv world0) = Inr None
        \<and> requests (snd (fetchAll1 failEnv world0))
            = requests world0 @ map (requestFor (accessToken failEnv))
                ([''users/la55u/repos?type=all&per_page=100'']
                 @ map commitsPath (take (Suc 1) demoRepos))"
    by (simp add: rq0 numeral_2_eq_2)
  then have u: "map url (requests (snd (fetchAll1 failEnv world0)))
       = [''https://api.github.com/users/la55u/repos?type=all&per_page=100'',
          ''https://api.github.com/repos/la55u/alpha/commits'',
          ''https://api.github.com/repos/la55u/beta/commits'']"
    by (simp add: world0_def demoRepos_def requestFor_def commitsPath_def username_def)
  show ?thesis
    using demo_fetchAll1 c t f1 f2 g u by simp
qed



text \<open>
  C7, as stated, fails: \<open>toISOString\<close> writes a year outside 0000 to 9999 with a sign and
  six digits, and the first ten characters of that are not of the form \<open>YYYY-MM-DD\<close>.
  The run of the example at the first instant of the year 10000 returns a summary whose
  \<open>statUpdated\<close> is \<open>+010000-01\<close>.
\<close>

theorem statUpdated_in_year_10000:
  "fst (fetchAll2 lateEnv world0) = Inr (demoStats2\<lparr>stats2.statUpdated := ''+010000-01''\<rparr>)
   \<and> \<not> isoDateForm (stats2.statUpdated (demoStats2\<lparr>stats2.statUpdated := ''+010000-01''\<rparr>))"
proof -
  have "fetchAll2 lateEnv world0
      = mapResult (\<lambda>s. s\<lparr>stats2.statUpdated := isoDate 253402300800000\<rparr>) (fetchAll2 demoEnv) world0"
    by (simp add: lateEnv_def fetchAll2_clock)
  then have "fst (fetchAll2 lateEnv world0) = Inr (demoStats2\<lparr>stats2.statUpdated := ''+010000-01''\<rparr>)"
    by (simp add: mapResult_eq demo_fetchAll2 demo_late)
  moreover have "\<not> isoDateForm ''+010000-01''"
    by (simp add: isoDateForm_def isDigit_def)
  ultimately show ?thesis by simp
qed

text \<open>
  C7, amended. Whenever \<open>fetchAll\<close> returns a summary, each date field is the first ten
  characters of the ISO string of an instant: \<open>registeredDate\<close> of the instant that the
  profile's \<open>created_at\<close> denotes, the pull-request dates of the instants that the
  \<open>created_at\<close> of the first items denote, \<open>statUpdated\<close> of the clock reading. For an
  instant whose year (UTC) is from 0 to 9999 these ten characters are of the form
  \<open>YYYY-MM-DD\<close>, namely the year, month and day of the instant, with no time of day; for
  any other instant they are not of that form.
\<close>

theorem date_fields_are_calendar_dates:
  "(fst (fetchAll2 e w) = Inr s2 \<longrightarrow>
      (\<exists>firstPr latestPr u tr tf tl.
         fetchedBody (net_search e (length (requests w) + 2)
           (requestFor (accessToken e)
             ''search/issues?q=author:la55u+type:pr&sort=created&order=asc&per_page=1''))
           = Some firstPr
         \<and> fetchedBody (net_search e (length (requests w) + 3)
           (requestFor (accessToken e)
             ''search/issues?q=author:la55u+type:pr&sort=created&order=desc&per_page=1''))
           = Some latestPr
         \<and> fetchedBody (net_user e (length (requests w) + 6)
           (requestFor (accessToken e) ''users/la55u'')) = Some u
         \<and> Date_parse (hostParse e) (user.created_at u) = Some tr
         \<and> Date_parse (hostParse e) (item.created_at (hd (items firstPr))) = Some tf
         \<and> Date_parse (hostParse e) (item.created_at (hd (items latestPr))) = Some tl
         \<and> stats2.registeredDate s2 = isoDate tr
         \<and> firstPRDate s2 = isoDate tf
         \<and> latestPRDate s2 = isoDate tl
         \<and> stats2.statUpdated s2 = isoDate (now e)))
   \<and> (fst (fetchAll1 e w) = Inr (Some s1) \<longrightarrow>
      (\<exists>repos prs u tr tf.
         fetchedBody (net_repos e (length (requests w))
           (requestFor (accessToken e) ''users/la55u/repos?type=all&per_page=100'')) = Some repos
         \<and> fetchedBody (net_search e (length (requests w) + 2 + length repos)
           (requestFor (accessToken e)
             ''search/issues?q=author:la55u+type:pr&sort=created&order=asc'')) = Some prs
         \<and> fetchedBody (net_user e (length (requests w) + 5 + length repos)
           (requestFor (accessToken e) ''user'')) = Some u
         \<and> Date_parse (hostParse e) (user.created_at u) = Some tr
         \<and> Date_parse (hostParse e) (item.created_at (hd (items prs))) = Some tf
         \<and> stats1.registeredDate s1 = isoDate tr
         \<and> firstPullRequestDate s1 = isoDate tf
         \<and> stats1.statUpdated s1 = isoDate (now e)))
   \<and> (fourDigitYear t \<longrightarrow>
        isoDateForm (isoDate t)
        \<and> isoDate t = dateString (YearFromTime t) (MonthFromTime t + 1) (DateFromTime t))
   \<and> (isoDateForm (isoDate t) \<longrightarrow> fourDigitYear t)"
proof (intro conjI impI)
  assume "fst (fetchAll2 e w) = Inr s2"
  then have "fetchAll2 e w = (Inr s2, snd (fetchAll2 e w))"
    by (rule fetchAll2_pair)
  from fetchAll2_success [OF this]
  show "\<exists>firstPr latestPr u tr tf tl.
         fetchedBody (net_search e (length (requests w) + 2)
           (requestFor (accessToken e)
             ''search/issues?q=author:la55u+type:pr&sort=created&order=asc&per_page=1''))
           = Some firstPr
         \<and> fetchedBody (net_search e (length (requests w) + 3)
           (requestFor (accessToken e)
             ''search/issues?q=author:la55u+type:pr&sort=created&order=desc&per_page=1''))
           = Some latestPr
         \<and> fetchedBody (net_user e (length (requests w) + 6)
           (requestFor (accessToken e) ''users/la55u'')) = Some u
         \<and> Date_parse (hostParse e) (user.created_at u) = Some tr
         \<and> Date_parse (hostParse e) (item.created_at (hd (items firstPr))) = Some tf
         \<and> Date_parse (hostParse e) (item.created_at (hd (items latestPr))) = Some tl
         \<and> stats2.registeredDate s2 = isoDate tr
         \<and> firstPRDate s2 = isoDate tf
         \<and> latestPRDate s2 = isoDate tl
         \<and> stats2.statUpdated s2 = isoDate (now e)"
    apply (elim exE conjE)
    apply (simp only: normalizeDate_Inr)
    apply (elim exE conjE)
    apply (intro exI conjI)
             apply (assumption | rule refl)+
    done
next
  assume "fst (fetchAll1 e w) = Inr (Some s1)"
  then have "fetchAll1 e w = (Inr (Some s1), snd (fetchAll1 e w))"
    by (rule fetchAll1_pair)
  from fetchAll1_success [OF this]
  show "\<exists>repos prs u tr tf.
         fetchedBody (net_repos e (length (requests w))
           (requestFor (accessToken e) ''users/la55u/repos?type=all&per_page=100'')) = Some repos
         \<and> fetchedBody (net_search e (length (requests w) + 2 + length repos)
           (requestFor (accessToken e)
             ''search/issues?q=author:la55u+type:pr&sort=created&order=asc'')) = Some prs
         \<and> fetchedBody (net_user e (length (requests w) + 5 + length repos)
           (requestFor (accessToken e) ''user'')) = Some u
         \<and> Date_parse (hostParse e) (user.created_at u) = Some tr
         \<and> Date_parse (hostParse e) (item.created_at (hd (items prs))) = Some tf
         \<and> stats1.registeredDate s1 = isoDate tr
         \<and> firstPullRequestDate s1 = isoDate tf
         \<and> stats1.statUpdated s1 = isoDate (now e)"
    apply (elim exE conjE)
    apply (simp only: normalizeDate_Inr)
    apply (elim exE conjE)
    apply (intro exI conjI)
             apply (assumption | rule refl)+
    done
next
  assume "fourDigitYear t"
  then show "isoDateForm (isoDate t)"
    by (simp add: isoDateForm_isoDate fourDigitYear_def)
next
  assume "fourDigitYear t"
  then show "isoDate t = dateString (YearFromTime t) (MonthFromTime t + 1) (DateFromTime t)"
    by (rule isoDate_dateString)
next
  assume "isoDateForm (isoDate t)"
  then show "fourDigitYear t"
    by (simp add: isoDateForm_isoDate fourDigitYear_def)
qed

theorem date_fields_are_calendar_dates_witness:
  "fst (fetchAll2 demoEnv world0) = Inr demoStats2
   \<and> fst (fetchAll1 demoEnv world0) = Inr (Some demoStats1)
   \<and> fourDigitYear (now demoEnv)
   \<and> stats2.statUpdated demoStats2 = isoDate (now demoEnv)
   \<and> stats1.statUpdated demoStats1 = isoDate (now demoEnv)
   \<and> isoDateForm (isoDate (now demoEnv))
   \<and> isoDate (now demoEnv) = dateString 2023 11 14
   \<and> \<not> isoDateForm (isoDate 253402300800000)
   \<and> \<not> fourDigitYear 253402300800000"
proof -
  have n: "now demoEnv = 1700000000000"
    by (simp add: demoEnv_def)
  have y: "fourDigitYear (now demoEnv)"
    by (simp add: n fourDigitYear_def demo_now)
  have l: "\<not> isoDateForm (isoDate 253402300800000)"
    by (simp add: demo_late isoDateForm_def isDigit_def)
  note a = date_fields_are_calendar_dates
    [where e = demoEnv and w = world0 and ?s2.0 = demoStats2 and ?s1.0 = demoStats1
       and t = "now demoEnv"]
  note b = date_fields_are_calendar_dates
    [where e = demoEnv and w = world0 and ?s2.0 = demoStats2 and ?s1.0 = demoStats1
       and t = 253402300800000]
  from a demo_fetchAll2 have u2: "stats2.statUpdated demoStats2 = isoDate (now demoEnv)"
    by blast
  from a demo_fetchAll1 have u1: "stats1.statUpdated demoStats1 = isoDate (now demoEnv)"
    by blast
  from a y have f: "isoDateForm (isoDate (now demoEnv))"
    and d: "isoDate (now demoEnv)
      = dateString (YearFromTime (now demoEnv)) (MonthFromTime (now demoEnv) + 1)
          (DateFromTime (now demoEnv))"
    by blast+
  from b l have nl: "\<not> fourDigitYear 253402300800000"
    by blast
  from d have "isoDate (now demoEnv) = dateString 2023 11 14"
    by (simp add: n demo_now)
  with y u1 u2 f l nl demo_fetchAll1 demo_fetchAll2 show ?thesis
    by simp
qed

text \<open>
  C4, as stated, fails: a successful status and a network call that did not fail are not
  enough for \<open>fetchData\<close> to return. When \<open>response.json()\<close> rejects, as it does for a
  body that is no JSON text, the call throws the wrapping error although the status
  is 200.
\<close>

theorem fetchData_throws_on_unparsed_body:
  "ok 200
   \<and> fst (fetchData (Some ''token'')
         (\<lambda>n r. Response 200 ''OK'' (BodyRejected ''Unexpected end of JSON input'') :: user response)
         ''user'' world0)
     = Inl (FetchError ''user'' (BodyError ''Unexpected end of JSON input''))"
  by (simp add: fetchData_eq ok_def)

text \<open>
  C4, amended. \<open>fetchData\<close> sends one request and either returns the parsed body or
  throws an error that wraps what went wrong and keeps it as its \<open>cause\<close>. It returns
  the body exactly when \<open>fetch\<close> resolved, the status is successful (200 to 299) and
  \<open>response.json()\<close> parsed the body. Otherwise it throws the wrapping error: with the
  rejection of \<open>fetch\<close> as the cause when the network call failed, with the rejection
  of \<open>response.json()\<close> when the body could not be read or parsed (whatever the status),
  and with the error made of the status code and text when the status is not successful
  and the error body was parsed. Either way the call logs the path once and sends
  exactly one request: nothing is tried a second time.
\<close>

theorem fetchData_wraps_or_returns:
  "(net (length (requests w)) (requestFor tok path) = Rejected m \<longrightarrow>
      fst (fetchData tok net path w) = Inl (FetchError path (NetworkError m))
      \<and> cause (FetchError path (NetworkError m)) = Some (NetworkError m))
   \<and> (net (length (requests w)) (requestFor tok path)
        = Response status statusText (BodyRejected m) \<longrightarrow>
      fst (fetchData tok net path w) = Inl (FetchError path (BodyError m))
      \<and> cause (FetchError path (BodyError m)) = Some (BodyError m))
   \<and> (net (length (requests w)) (requestFor tok path) = Response status statusText (Body d)
        \<and> \<not> ok status \<longrightarrow>
      fst (fetchData tok net path w) = Inl (FetchError path (HttpError status statusText))
      \<and> cause (FetchError path (HttpError status statusText))
          = Some (HttpError status statusText))
   \<and> (net (length (requests w)) (requestFor tok path) = Response status statusText (Body d)
        \<and> ok status \<longrightarrow>
      fst (fetchData tok net path w) = Inr d)
   \<and> snd (fetchData tok net path w) = sent tok path w"
  by (simp add: fetchData_eq)

theorem fetchData_wraps_or_returns_witness:
  "fst (fetchData None (\<lambda>n r. Rejected ''fetch failed'' :: user response) ''user'' world0)
     = Inl (FetchError ''user'' (NetworkError ''fetch failed''))
   \<and> fst (fetchData None
         (\<lambda>n r. Response 200 ''OK'' (BodyRejected ''Unexpected end of JSON input'') :: user response)
         ''user'' world0)
     = Inl (FetchError ''user'' (BodyError ''Unexpected end of JSON input''))
   \<and> \<not> ok 401
   \<and> fst (fetchData None (\<lambda>n r. Response 401 ''Unauthorized'' (Body demoUser)) ''user'' world0)
     = Inl (FetchError ''user'' (HttpError 401 ''Unauthorized''))
   \<and> ok 200
   \<and> fst (fetchData (Some ''token'') (\<lambda>n r. Response 200 ''OK'' (Body demoUser)) ''user'' world0)
     = Inr demoUser"
proof -
  have k: "\<not> ok 401" "ok 200"
    by (simp_all add: ok_def)
  note t = fetchData_wraps_or_returns
  from t [where net = "\<lambda>n r. Rejected ''fetch failed'' :: user response" and w = world0
      and tok = None and path = "''user''" and m = "''fetch failed''"]
  have a: "fst (fetchData None (\<lambda>n r. Rejected ''fetch failed'' :: user response) ''user'' world0)
     = Inl (FetchError ''user'' (NetworkError ''fetch failed''))"
    by simp
  from t [where net = "\<lambda>n r. Response 200 ''OK'' (BodyRejected ''Unexpected end of JSON input'')
        :: user response" and w = world0 and tok = None and path = "''user''"
      and m = "''Unexpected end of JSON input''" and status = 200 and statusText = "''OK''"]
  have b: "fst (fetchData None
         (\<lambda>n r. Response 200 ''OK'' (BodyRejected ''Unexpected end of JSON input'') :: user response)
         ''user'' world0)
     = Inl (FetchError ''user'' (BodyError ''Unexpected end of JSON input''))"
    by simp
  from t [where net = "\<lambda>n r. Response 401 ''Unauthorized'' (Body demoUser)" and w = world0
      and tok = None and path = "''user''" and status = 401 and statusText = "''Unauthorized''"
      and d = demoUser] k
  have c: "fst (fetchData None (\<lambda>n r. Response 401 ''Unauthorized'' (Body demoUser)) ''user'' world0)
     = Inl (FetchError ''user'' (HttpError 401 ''Unauthorized''))"
    by simp
  from t [where net = "\<lambda>n r. Response 200 ''OK'' (Body demoUser)" and w = world0
      and tok = "Some ''token''" and path = "''user''" and status = 200 and statusText = "''OK''"
      and d = demoUser] k
  have d: "fst (fetchData (Some ''token'') (\<lambda>n r. Response 200 ''OK'' (Body demoUser)) ''user'' world0)
     = Inr demoUser"
    by simp
  from a b c d k show ?thesis by simp
qed

text \<open>
  C1. The first variant does not keep to it: when the very first request of the run
  fails, \<open>fetchAll\<close> logs the error and returns \<open>undefined\<close>, and \<open>main\<close> goes on to
  render the template and to overwrite \<open>README.md\<close>, then reports success. Nothing
  reaches the \<open>catch\<close> of \<open>main\<close>. On the same input the second variant logs the error
  in \<open>main\<close> and leaves \<open>README.md\<close> as it was.
\<close>

theorem main1_writes_after_failed_fetch:
  "fst (fetchData (accessToken offlineEnv) (net_repos offlineEnv)
          ''users/la55u/repos?type=all&per_page=100'' world0)
     = Inl (FetchError ''users/la55u/repos?type=all&per_page=100''
              (NetworkError ''fetch failed''))
   \<and> files world0 ''README.md'' = Some ''old''
   \<and> files (snd (main1 plainEngine offlineEnv world0)) ''README.md'' = Some ''# Stats''
   \<and> console (snd (main1 plainEngine offlineEnv world0))
     = [Log [''Fetching: '', ''users/la55u/repos?type=all&per_page=100''],
        LogError ''Something went wrong:''
          (FetchError ''users/la55u/repos?type=all&per_page=100''
             (NetworkError ''fetch failed'')),
        Log [''README file updated successfully.'']]
   \<and> files (snd (main2 plainEngine offlineEnv world0)) = files world0
   \<and> last (console (snd (main2 plainEngine offlineEnv world0)))
     = LogError ''Error updating README file:''
         (Rethrown (FetchError ''users/la55u/repos?type=public&per_page=100''
            (NetworkError ''fetch failed'')))"
  by (simp add: offline_main1 offline_main2 fetchData_eq)
    (simp add: offlineEnv_def demoEnv_def world0_def)

text \<open>
  C2. The first variant does not surface the error: when a fetch fails, its \<open>fetchAll\<close>
  logs the error and returns normally, with \<open>undefined\<close> as the summary. The second
  variant throws a new error whose cause is the one caught.
\<close>

theorem fetchAll1_returns_after_failed_fetch:
  "fst (fetchAll1 offlineEnv world0) = Inr None
   \<and> console (snd (fetchAll1 offlineEnv world0))
     = [Log [''Fetching: '', ''users/la55u/repos?type=all&per_page=100''],
        LogError ''Something went wrong:''
          (FetchError ''users/la55u/repos?type=all&per_page=100''
             (NetworkError ''fetch failed''))]
   \<and> fst (fetchAll1 failEnv world0) = Inr None
   \<and> fst (fetchAll2 offlineEnv world0)
     = Inl (Rethrown (FetchError ''users/la55u/repos?type=public&per_page=100''
              (NetworkError ''fetch failed'')))"
proof -
  have "fst (fetchAll1 failEnv world0) = Inr None"
    by (simp add: fetchAll1_def tryCatch_def andThen_def fetchData_eq failEnv_def demoEnv_def
      demoRepos_def world0_def username_def sent_def console_error_def ok_def
      commitsPath_def requestFor_def)
  then show ?thesis
    by (simp add: offline_fetchAll1 offline_fetchAll2)
qed

text \<open>
  C5. In the first variant a search for pull requests that lists no item makes
  \<open>prs.items[0].created_at\<close> throw a \<open>TypeError\<close>, which \<open>fetchAll\<close> logs and swallows:
  the run is not aborted, \<open>main\<close> logs nothing about it, renders the template and
  overwrites \<open>README.md\<close>. In the second variant the same response makes \<open>fetchAll\<close>
  throw an error with the \<open>TypeError\<close> as its cause, \<open>main\<close> logs it and nothing is
  written.
\<close>

theorem main1_goes_on_without_pull_requests:
  "fst (fetchAll1 noPullsEnv world0) = Inr None
   \<and> console (snd (main1 plainEngine noPullsEnv world0))
     = [Log [''Fetching: '', ''users/la55u/repos?type=all&per_page=100''],
        Log [''Fetching: '', ''repos/la55u/alpha/commits''],
        Log [''Fetching: '', ''repos/la55u/beta/commits''],
        Log [''Fetching: '', ''repos/la55u/gamma/commits''],
        Log [''Fetching: '', ''search/issues?q=author:la55u+type:issue''],
        Log [''Fetching: '', ''search/issues?q=author:la55u+type:pr&sort=created&order=asc''],
        LogError ''Something went wrong:'' (TypeError ''created_at''),
        Log [''README file updated successfully.'']]
   \<and> files (snd (main1 plainEngine noPullsEnv world0)) ''README.md'' = Some ''# Stats''
   \<and> fst (fetchAll2 noPullsEnv world0) = Inl (Rethrown (TypeError ''created_at''))
   \<and> cause (Rethrown (TypeError ''created_at'')) = Some (TypeError ''created_at'')
   \<and> console (snd (main2 plainEngine noPullsEnv world0))
     = [Log [''Fetching: '', ''users/la55u/repos?type=public&per_page=100''],
        Log [''Fetching: '', ''search/issues?q=author:la55u+type:issue''],
        Log [''Fetching: '',
          ''search/issues?q=author:la55u+type:pr&sort=created&order=asc&per_page=1''],
        LogError ''Error fetching data:'' (TypeError ''created_at''),
        LogError ''Error updating README file:'' (Rethrown (TypeError ''created_at''))]
   \<and> files (snd (main2 plainEngine noPullsEnv world0)) = files world0"
proof -
  have t: "files world0 ''README.md.hbs'' = Some ''# Stats''"
    by (simp add: world0_def)
  note a = main1_after_None [OF conjunct1 [OF noPulls_fetchAll1] t]
  have b: "console (snd (main2 plainEngine noPullsEnv world0))
    = console (snd (fetchAll2 noPullsEnv world0))
        @ [LogError ''Error updating README file:'' (Rethrown (TypeError ''created_at''))]"
    using noPulls_fetchAll2 by (simp add: main2_logs_failure)
  have c: "files (snd (main2 plainEngine noPullsEnv world0)) = files world0"
    using noPulls_fetchAll2 by (simp add: main2_files)
  show ?thesis
    using a b c noPulls_fetchAll1 noPulls_fetchAll2 by simp
qed

end
